theory Spec2Isabelle
  imports Main
begin

section \<open>JavaScript values\<close>

text \<open>
  Request bodies, configuration files and collaborator responses are JSON documents; the
  services read them with JavaScript's dynamic operators (\<^verbatim>\<open>||\<close>, \<^verbatim>\<open>!\<close>, property access,
  template literals). A value is therefore one of the JSON shapes, plus \<open>Undefined\<close> for
  a property that is absent. Numbers are the integers (status codes, counters); an object
  is its list of key/value pairs, looked up by key (the first pair of a key is the
  object's member). A string is the list of the bytes of its UTF-8 encoding.
\<close>

datatype jsval = Undefined | Null | Bool bool | Num int | Str string
  | Arr "jsval list" | Obj "(string \<times> jsval) list"

text \<open>What \<^verbatim>\<open>Boolean(v)\<close> and the conditions \<^verbatim>\<open>if (v)\<close>, \<^verbatim>\<open>!v\<close> decide.\<close>

fun truthy :: "jsval \<Rightarrow> bool" where
  "truthy Undefined = False"
| "truthy Null = False"
| "truthy (Bool b) = b"
| "truthy (Num n) = (n \<noteq> 0)"
| "truthy (Str s) = (s \<noteq> [])"
| "truthy (Arr xs) = True"
| "truthy (Obj kvs) = True"

text \<open>\<^verbatim>\<open>a || b\<close>.\<close>

definition js_or :: "jsval \<Rightarrow> jsval \<Rightarrow> jsval" where
  "js_or a b = (if truthy a then a else b)"

text \<open>\<^verbatim>\<open>v.k\<close> on a value that is not null or undefined (the callers guard those).\<close>

fun getp :: "jsval \<Rightarrow> string \<Rightarrow> jsval" where
  "getp (Obj kvs) k = (case map_of kvs k of Some v \<Rightarrow> v | None \<Rightarrow> Undefined)"
| "getp v k = Undefined"

text \<open>An object literal as \<^verbatim>\<open>JSON.stringify\<close> sends it: undefined members are left out.\<close>

definition json_obj :: "(string \<times> jsval) list \<Rightarrow> jsval" where
  "json_obj kvs = Obj (filter (\<lambda>kv. snd kv \<noteq> Undefined) kvs)"

definition digit_char :: "nat \<Rightarrow> char" where
  "digit_char d = ''0123456789'' ! d"

function show_nat :: "nat \<Rightarrow> string" where
  "show_nat n = (if n < 10 then [digit_char n] else show_nat (n div 10) @ [digit_char (n mod 10)])"
  by pat_completeness auto
termination
  by (relation "measure id") auto

declare show_nat.simps [simp del]

definition show_int :: "int \<Rightarrow> string" where
  "show_int i = (if i < 0 then CHR ''-'' # show_nat (nat (- i)) else show_nat (nat i))"

fun js_join :: "string \<Rightarrow> string list \<Rightarrow> string" where
  "js_join sep [] = []"
| "js_join sep [x] = x"
| "js_join sep (x # y # ys) = x @ sep @ js_join sep (y # ys)"

text \<open>
  \<^verbatim>\<open>String(v)\<close>, \<^verbatim>\<open>v.toString()\<close> and the \<^verbatim>\<open>${v}\<close> of a template literal convert a value to a
  string, and the conversion of an object calls the object's \<^verbatim>\<open>toString\<close>. An object parsed
  from JSON inherits a \<^verbatim>\<open>toString\<close> that gives \<^verbatim>\<open>[object Object]\<close>, unless it has a member of
  its own under that name: no JSON value can be called, the inherited \<^verbatim>\<open>valueOf\<close> gives the
  object back, and the conversion throws a TypeError. An array joins the conversions of its
  elements (nothing for \<^verbatim>\<open>null\<close>), so it throws when one of them does. \<open>stringable\<close> are
  the values whose conversion returns, \<open>string_of\<close> is what it returns for them, and
  \<open>js_toString\<close> is the conversion.
\<close>

fun stringable :: "jsval \<Rightarrow> bool" where
  "stringable (Obj kvs) = (map_of kvs ''toString'' = None)"
| "stringable (Arr xs) = (\<forall>x \<in> set xs. stringable x)"
| "stringable v = True"

fun string_of :: "jsval \<Rightarrow> string" where
  "string_of Undefined = ''undefined''"
| "string_of Null = ''null''"
| "string_of (Bool b) = (if b then ''true'' else ''false'')"
| "string_of (Num n) = show_int n"
| "string_of (Str s) = s"
| "string_of (Arr xs) =
     js_join '','' (map (\<lambda>x. if x = Null \<or> x = Undefined then [] else string_of x) xs)"
| "string_of (Obj kvs) = ''[object Object]''"

datatype js_error = JsError (err_name: string) (err_message: string)

definition js_toString :: "jsval \<Rightarrow> js_error + string" where
  "js_toString v =
     (if stringable v then Inr (string_of v)
      else Inl (JsError ''TypeError'' ''Cannot convert object to primitive value''))"

text \<open>The string of a value that is known to be one (an instance id that passed validation).\<close>

definition str_of :: "jsval \<Rightarrow> string" where
  "str_of v = (case v of Str s \<Rightarrow> s | _ \<Rightarrow> [])"

text \<open>
  \<^verbatim>\<open>String.prototype.trim\<close> removes white space and line terminators from both ends. These
  are the code points U+0009 to U+000D, U+0020, U+00A0, U+1680, U+2000 to U+200A, U+2028,
  U+2029, U+202F, U+205F, U+3000 and U+FEFF; \<open>white_space\<close> lists their UTF-8 encodings.
  \<open>strip\<close> removes from the front of a string every leading occurrence of one of the given
  byte sequences, and \<open>trim\<close> does so at the front and, on the reversed string with the
  reversed sequences, at the end.
\<close>

definition white_space :: "string list" where
  "white_space =
     [[CHR 0x09], [CHR 0x0A], [CHR 0x0B], [CHR 0x0C], [CHR 0x0D], [CHR 0x20],
      [CHR 0xC2, CHR 0xA0], [CHR 0xE1, CHR 0x9A, CHR 0x80],
      [CHR 0xE2, CHR 0x80, CHR 0x80], [CHR 0xE2, CHR 0x80, CHR 0x81], [CHR 0xE2, CHR 0x80, CHR 0x82],
      [CHR 0xE2, CHR 0x80, CHR 0x83], [CHR 0xE2, CHR 0x80, CHR 0x84], [CHR 0xE2, CHR 0x80, CHR 0x85],
      [CHR 0xE2, CHR 0x80, CHR 0x86], [CHR 0xE2, CHR 0x80, CHR 0x87], [CHR 0xE2, CHR 0x80, CHR 0x88],
      [CHR 0xE2, CHR 0x80, CHR 0x89], [CHR 0xE2, CHR 0x80, CHR 0x8A],
      [CHR 0xE2, CHR 0x80, CHR 0xA8], [CHR 0xE2, CHR 0x80, CHR 0xA9], [CHR 0xE2, CHR 0x80, CHR 0xAF],
      [CHR 0xE2, CHR 0x81, CHR 0x9F], [CHR 0xE3, CHR 0x80, CHR 0x80], [CHR 0xEF, CHR 0xBB, CHR 0xBF]]"

function strip :: "string list \<Rightarrow> string \<Rightarrow> string" where
  "strip pats s =
     (case List.find (\<lambda>p. p \<noteq> [] \<and> take (length p) s = p) pats of
        None \<Rightarrow> s
      | Some p \<Rightarrow> strip pats (drop (length p) s))"
  by pat_completeness auto
termination
proof (relation "measure (\<lambda>(pats, s). length s)")
  show "wf (measure (\<lambda>(pats, s). length s))"
    by simp
next
  fix pats :: "string list" and s p :: string
  assume "List.find (\<lambda>p. p \<noteq> [] \<and> take (length p) s = p) pats = Some p"
  then have "p \<noteq> []" and "take (length p) s = p"
    by (auto simp: find_Some_iff)
  then have "s \<noteq> []"
    by auto
  with \<open>p \<noteq> []\<close> show "((pats, drop (length p) s), (pats, s)) \<in> measure (\<lambda>(pats, s). length s)"
    by simp
qed

declare strip.simps [simp del]

definition trim :: "string \<Rightarrow> string" where
  "trim s = rev (strip (map rev white_space) (rev (strip white_space s)))"

text \<open>
  \<^verbatim>\<open>String.prototype.toLowerCase\<close>, on the ASCII letters. Its result is only compared with, or
  searched for, the ASCII texts \<open>approve\<close>, \<open>reject\<close>, \<open>modify\<close>, \<open>ollama\<close>, \<^verbatim>\<open><html\<close>,
  \<^verbatim>\<open></html>\<close> and \<^verbatim>\<open>### summary\<close>, and no character outside ASCII becomes a letter of these
  when lower-cased.
\<close>

definition lower_char :: "char \<Rightarrow> char" where
  "lower_char c =
     (if (65::nat) \<le> of_char c \<and> of_char c \<le> (90::nat) then char_of (of_char c + (32::nat)) else c)"

definition toLowerCase :: "string \<Rightarrow> string" where
  "toLowerCase s = map lower_char s"

section \<open>Errors and HTTP exchanges\<close>

text \<open>
  A thrown \<^verbatim>\<open>Error\<close> is its name and its message. \<open>err_text\<close> is the source's
  \<^verbatim>\<open>e.message || e\<close> put into a string: the message, or for an empty message what
  \<^verbatim>\<open>Error.prototype.toString\<close> gives, the name. The messages of the errors that the
  runtime raises (a TypeError of a conversion or of a call of something that is no function,
  the rejection of a \<^verbatim>\<open>fetch\<close>) are the runtime's own; the ones written here are those of
  Node.js.
\<close>

definition err_text :: "js_error \<Rightarrow> string" where
  "err_text e = (if err_message e \<noteq> [] then err_message e else err_name e)"

text \<open>
  What one \<^verbatim>\<open>fetch\<close> gives: a rejection (no response at all), or a response with its
  status, its body as text, and what \<^verbatim>\<open>res.json()\<close> makes of the body (a value, or the
  parser's error).
\<close>

datatype http_result = NetFail js_error | Response nat string "js_error + jsval"

definition http_ok :: "nat \<Rightarrow> bool" where
  "http_ok st = (200 \<le> st \<and> st \<le> 299)"

datatype reply = Reply nat jsval

section \<open>Instance store, configuration, artifacts and the observable trace\<close>

datatype status = Active | Wait | Finished | Abort

fun status_name :: "status \<Rightarrow> string" where
  "status_name Active = ''active''"
| "status_name Wait = ''wait''"
| "status_name Finished = ''finished''"
| "status_name Abort = ''abort''"

text \<open>The record of \<^verbatim>\<open>meta.json\<close>; a member the file does not have is \<open>None\<close>.\<close>

record meta =
  status :: "status option"
  gen_count :: "nat option"
  started_at :: "string option"
  finished_at :: "string option"
  owner :: "jsval option"

definition empty_meta :: meta where
  "empty_meta = \<lparr>status = None, gen_count = None, started_at = None, finished_at = None, owner = None\<rparr>"

text \<open>
  Everything the orchestrator does to the outside, in the order it does it: lines of the
  instance's local log, events posted to the log service (level, type, message, instance,
  username, trace id), requests to the three collaborators, and writes of \<^verbatim>\<open>meta.json\<close>.
  The service name of an event is always \<open>compose\<close> and is left out, and so are the time
  stamps that log lines and events carry. Both sinks fail open in the source; the trace
  records what was handed to them.
\<close>

datatype effect =
    LocalLog string string
  | LogEvent string string string string jsval jsval
  | CallAuthor jsval
  | CallHitl jsval
  | CallEmail jsval
  | MetaWrite "string list" meta

fun is_call :: "effect \<Rightarrow> bool" where
  "is_call (CallAuthor b) = True"
| "is_call (CallHitl b) = True"
| "is_call (CallEmail b) = True"
| "is_call e = False"

fun is_email_call :: "effect \<Rightarrow> bool" where
  "is_email_call (CallEmail b) = True"
| "is_email_call e = False"

fun is_hitl_call :: "effect \<Rightarrow> bool" where
  "is_hitl_call (CallHitl b) = True"
| "is_hitl_call e = False"

text \<open>
  The steps of a trace are its state writes and collaborator requests, in order, with the
  log lines and events left out.
\<close>

fun is_step :: "effect \<Rightarrow> bool" where
  "is_step (MetaWrite d m) = True"
| "is_step (CallAuthor b) = True"
| "is_step (CallHitl b) = True"
| "is_step (CallEmail b) = True"
| "is_step e = False"

text \<open>
  The files of an instance are in the directory
  \<^verbatim>\<open>path.join(getInstanceRoot(), 'email-app', instanceId)\<close>. A directory is the list of the
  names on its absolute path. \<^verbatim>\<open>path.join\<close> splits at the slashes, drops the empty names and
  \<open>.\<close>, and lets \<open>..\<close> take away the name before it (nothing at the root): ids such as
  \<open>i1\<close>, \<open>i1/\<close> and \<open>./i1\<close> name one directory, and so one \<^verbatim>\<open>meta.json\<close>.
\<close>

fun split_path :: "string \<Rightarrow> string list" where
  "split_path [] = [[]]"
| "split_path (c # cs) =
     (if c = CHR ''/'' then [] # split_path cs
      else (case split_path cs of [] \<Rightarrow> [[c]] | n # ns \<Rightarrow> (c # n) # ns))"

fun normalize :: "string list \<Rightarrow> string list \<Rightarrow> string list" where
  "normalize dir [] = dir"
| "normalize dir (n # ns) =
     (if n = [] \<or> n = ''.'' then normalize dir ns
      else if n = ''..'' then normalize (butlast dir) ns
      else normalize (dir @ [n]) ns)"

definition instance_dir :: "string list \<Rightarrow> string \<Rightarrow> string list" where
  "instance_dir root instanceId = normalize root (''email-app'' # split_path instanceId)"

text \<open>
  The file system under the instance root, whose own directory is \<open>instance_root\<close>. Per
  instance directory: \<^verbatim>\<open>meta.json\<close>, \<^verbatim>\<open>config.json\<close> (\<open>None\<close>: missing or not JSON),
  \<^verbatim>\<open>artifacts/email.html\<close>; the directories that were made; then the trace and the number
  of clock readings taken so far for the time stamps of the records. File names are POSIX
  ones, compared byte by byte, and reading and writing a file succeeds.
\<close>

record world =
  instance_root :: "string list"
  metas :: "string list \<Rightarrow> meta option"
  configs :: "string list \<Rightarrow> jsval option"
  drafts :: "string list \<Rightarrow> string option"
  dirs :: "string list set"
  trace :: "effect list"
  ticks :: nat

text \<open>
  What the outside answers during one request: the responses of the three collaborators,
  the file the drafting and the delivery service leave in \<^verbatim>\<open>artifacts/email.html\<close> while
  they handle their request (\<open>None\<close>: they leave it as it is), the values of
  \<^verbatim>\<open>generateInstanceId()\<close> and \<^verbatim>\<open>crypto.randomBytes(6).toString('hex')\<close>, the formatted
  clock at each reading, and the configured address of the review service.
\<close>

record env =
  author_reply :: http_result
  author_draft :: "string option"
  hitl_reply :: http_result
  email_reply :: http_result
  email_draft :: "string option"
  gen_instance_id :: string
  gen_trace_id :: string
  clock :: "nat \<Rightarrow> string"
  HITL_URL :: string

definition steps :: "world \<Rightarrow> effect list" where
  "steps w = filter is_step (trace w)"

definition emit :: "effect \<Rightarrow> world \<Rightarrow> world" where
  "emit e w = w\<lparr>trace := trace w @ [e]\<rparr>"

definition appendLocalLog :: "string \<Rightarrow> string \<Rightarrow> world \<Rightarrow> world" where
  "appendLocalLog instanceId message w = emit (LocalLog instanceId message) w"

definition logEvent :: "string \<Rightarrow> string \<Rightarrow> string \<Rightarrow> string \<Rightarrow> jsval \<Rightarrow> jsval \<Rightarrow> world \<Rightarrow> world" where
  "logEvent level event_type message instance_id username trace_id w =
     emit (LogEvent level event_type message instance_id username trace_id) w"

text \<open>The \<^verbatim>\<open>root\<close> of \<^verbatim>\<open>getInstancePaths\<close>; the other paths are fixed names below it.\<close>

definition getInstancePaths :: "string \<Rightarrow> world \<Rightarrow> string list" where
  "getInstancePaths instanceId w = instance_dir (instance_root w) instanceId"

definition ensureDir :: "string list \<Rightarrow> world \<Rightarrow> world" where
  "ensureDir dir w = w\<lparr>dirs := insert dir (dirs w)\<rparr>"

definition validateInstanceId :: "jsval \<Rightarrow> bool" where
  "validateInstanceId v = (case v of Str s \<Rightarrow> trim s \<noteq> [] | _ \<Rightarrow> False)"

definition loadInstanceConfig :: "string \<Rightarrow> world \<Rightarrow> jsval" where
  "loadInstanceConfig instanceId w =
     js_or (case configs w (getInstancePaths instanceId w) of None \<Rightarrow> Null | Some v \<Rightarrow> v) (Obj [])"

definition readMeta :: "string \<Rightarrow> world \<Rightarrow> meta" where
  "readMeta instanceId w =
     (case metas w (getInstancePaths instanceId w) of None \<Rightarrow> empty_meta | Some m \<Rightarrow> m)"

text \<open>\<^verbatim>\<open>updateMeta\<close>: read, apply the updater, write, and return what was written.\<close>

definition updateMeta :: "string \<Rightarrow> (meta \<Rightarrow> meta) \<Rightarrow> world \<Rightarrow> world" where
  "updateMeta instanceId updater w =
     (let dir = getInstancePaths instanceId w;
          next = updater (readMeta instanceId w)
      in w\<lparr>metas := (metas w)(dir := Some next),
            dirs := insert dir (dirs w),
            trace := trace w @ [MetaWrite dir next]\<rparr>)"

definition readLatestEmailHtml :: "string \<Rightarrow> world \<Rightarrow> string" where
  "readLatestEmailHtml instanceId w =
     (case drafts w (getInstancePaths instanceId w) of Some h \<Rightarrow> h | None \<Rightarrow> [])"

definition tick :: "world \<Rightarrow> world" where
  "tick w = w\<lparr>ticks := Suc (ticks w)\<rparr>"

definition now :: "env \<Rightarrow> world \<Rightarrow> string" where
  "now ev w = clock ev (ticks w)"

section \<open>compose: configuration merge and recipients\<close>

record merged =
  subject :: jsval
  to :: jsval
  cc :: jsval
  bcc :: jsval
  sender_email :: jsval
  sender_name :: jsval

definition mergeConfig :: "string \<Rightarrow> jsval \<Rightarrow> world \<Rightarrow> merged" where
  "mergeConfig instanceId payload w =
     (let cfg = loadInstanceConfig instanceId w
      in \<lparr>subject = js_or (getp payload ''subject'')
                       (js_or (getp cfg ''subject'') (js_or (getp cfg ''EMAIL_SUBJECT'') Null)),
          to = js_or (getp payload ''to'') (js_or (getp cfg ''to'') (Arr [])),
          cc = js_or (getp payload ''cc'') (js_or (getp cfg ''cc'') (Arr [])),
          bcc = js_or (getp payload ''bcc'') (js_or (getp cfg ''bcc'') (Arr [])),
          sender_email = js_or (getp payload ''sender_email'')
                       (js_or (getp cfg ''sender_email'') (js_or (getp cfg ''SENDER_EMAIL'') Null)),
          sender_name = js_or (getp payload ''sender_name'')
                       (js_or (getp cfg ''sender_name'') (js_or (getp cfg ''SENDER_NAME'') Null))\<rparr>)"

definition filterBoolean :: "jsval \<Rightarrow> jsval list" where
  "filterBoolean v = (case v of Arr xs \<Rightarrow> filter truthy xs | _ \<Rightarrow> [])"

definition requireRecipients :: "jsval \<Rightarrow> jsval \<Rightarrow> jsval \<Rightarrow> (jsval list \<times> jsval list \<times> jsval list) option" where
  "requireRecipients t c b =
     (let toArr = filterBoolean t; ccArr = filterBoolean c; bccArr = filterBoolean b
      in if toArr = [] \<and> ccArr = [] \<and> bccArr = [] then None else Some (toArr, ccArr, bccArr))"

section \<open>compose: collaborator clients\<close>

text \<open>
  The three clients. Each request is recorded in the trace. The drafting and the delivery
  service write \<^verbatim>\<open>artifacts/email.html\<close> of the instance named in the request while they
  handle it; the review service writes nothing the orchestrator reads.
\<close>

definition collaborator_wrote :: "jsval \<Rightarrow> string option \<Rightarrow> world \<Rightarrow> world" where
  "collaborator_wrote body file w =
     (case file of None \<Rightarrow> w
      | Some h \<Rightarrow> w\<lparr>drafts := (drafts w)(getInstancePaths (str_of (getp body ''instance_id'')) w := Some h)\<rparr>)"

definition client_result :: "string \<Rightarrow> http_result \<Rightarrow> js_error + jsval" where
  "client_result label r =
     (case r of
        NetFail e \<Rightarrow> Inl e
      | Response st text js \<Rightarrow>
          if \<not> http_ok st then Inl (JsError ''Error'' (label @ show_nat st @ '': '' @ text))
          else js)"

text \<open>The request bodies, as the object literals of the source build them.\<close>

definition draft_request :: "string \<Rightarrow> jsval \<Rightarrow> jsval \<Rightarrow> jsval \<Rightarrow> jsval \<Rightarrow> jsval \<Rightarrow> jsval" where
  "draft_request instance_id username instructions base_html subj trace_id =
     json_obj [(''instance_id'', Str instance_id), (''username'', username),
               (''instructions'', instructions), (''base_html'', base_html),
               (''subject'', subj), (''trace_id'', trace_id)]"

definition review_request :: "string \<Rightarrow> jsval \<Rightarrow> jsval \<Rightarrow> nat \<Rightarrow> jsval" where
  "review_request instance_id html hitlConfig loopIndex =
     json_obj [(''caller_id'', Str instance_id), (''html'', html),
               (''hitl'', js_or hitlConfig (Obj [])),
               (''loop'', Num (int loopIndex + 1))]"

definition callAuthorAgent :: "env \<Rightarrow> jsval \<Rightarrow> world \<Rightarrow> (js_error + jsval) \<times> world" where
  "callAuthorAgent ev body w =
     (client_result ''author_agent_error_'' (author_reply ev),
      collaborator_wrote body (author_draft ev) (emit (CallAuthor body) w))"

definition callEmailAgent :: "env \<Rightarrow> jsval \<Rightarrow> world \<Rightarrow> (js_error + jsval) \<times> world" where
  "callEmailAgent ev body w =
     (client_result ''email_agent_error_'' (email_reply ev),
      collaborator_wrote body (email_draft ev) (emit (CallEmail body) w))"

text \<open>\<^verbatim>\<open>try { body = await res.json(); } catch (_) { body = null; }\<close>.\<close>

definition json_or_null :: "js_error + jsval \<Rightarrow> jsval" where
  "json_or_null js = (case js of Inl e \<Rightarrow> Null | Inr v \<Rightarrow> v)"

definition callHitlAgent ::
  "env \<Rightarrow> string \<Rightarrow> jsval \<Rightarrow> jsval \<Rightarrow> nat \<Rightarrow> world \<Rightarrow> (js_error + nat \<times> jsval) \<times> world" where
  "callHitlAgent ev instance_id html hitlConfig loopIndex w =
     (let payload = review_request instance_id html hitlConfig loopIndex;
          w1 = appendLocalLog instance_id (''HITL submit -> '' @ HITL_URL ev) w;
          w2 = emit (CallHitl payload) w1
      in case hitl_reply ev of
           NetFail e \<Rightarrow> (Inl e, w2)
         | Response st text js \<Rightarrow> (Inr (st, json_or_null js), w2))"

section \<open>compose: state transitions\<close>

definition has_text :: "string option \<Rightarrow> bool" where
  "has_text x = (case x of None \<Rightarrow> False | Some s \<Rightarrow> s \<noteq> [])"

definition has_owner :: "jsval option \<Rightarrow> bool" where
  "has_owner x = (case x of None \<Rightarrow> False | Some v \<Rightarrow> truthy v)"

text \<open>
  The updater of \<^verbatim>\<open>markInstanceActive\<close>: status \<open>active\<close>, \<open>started_at\<close> and \<open>owner\<close>
  only where the record has none. The clock is read only when \<open>started_at\<close> is stamped.
\<close>

definition activate :: "string \<Rightarrow> jsval \<Rightarrow> meta \<Rightarrow> meta" where
  "activate stamp username prev =
     (let next = prev\<lparr>status := Some Active\<rparr>;
          next1 = (if \<not> has_text (started_at next) then next\<lparr>started_at := Some stamp\<rparr> else next)
      in if truthy username \<and> \<not> has_owner (owner next1)
         then next1\<lparr>owner := Some username\<rparr> else next1)"

definition markInstanceActive :: "env \<Rightarrow> string \<Rightarrow> jsval \<Rightarrow> world \<Rightarrow> world" where
  "markInstanceActive ev instanceId username w =
     (let stamp = \<not> has_text (started_at (readMeta instanceId w));
          w1 = updateMeta instanceId (activate (now ev w) username) w;
          w2 = (if stamp then tick w1 else w1)
      in appendLocalLog instanceId ''state - active'' w2)"

text \<open>\<^verbatim>\<open>abortInstance\<close>; the note is a string, empty when the caller gives none.\<close>

definition abortInstance :: "env \<Rightarrow> string \<Rightarrow> jsval \<Rightarrow> jsval \<Rightarrow> string \<Rightarrow> world \<Rightarrow> world" where
  "abortInstance ev instanceId username traceId note w =
     (let w1 = tick (updateMeta instanceId
                       (\<lambda>prev. prev\<lparr>status := Some Abort, finished_at := Some (now ev w)\<rparr>) w);
          w2 = appendLocalLog instanceId ''state - abort'' w1;
          w3 = (if note \<noteq> [] then appendLocalLog instanceId note w2 else w2)
      in logEvent ''warn'' ''state_change''
           (if note \<noteq> [] then ''state - abort ('' @ note @ '')'' else ''state - abort'')
           instanceId (js_or username (Str ''unknown'')) (js_or traceId (Str (gen_trace_id ev))) w3)"

text \<open>\<^verbatim>\<open>finishAs\<close>, the closure of the review callback.\<close>

definition finishAs :: "env \<Rightarrow> string \<Rightarrow> string \<Rightarrow> jsval \<Rightarrow> status \<Rightarrow> string \<Rightarrow> world \<Rightarrow> world" where
  "finishAs ev instance_id user traceId st logMsg w =
     (let w1 = tick (updateMeta instance_id
                       (\<lambda>prev. prev\<lparr>status := Some st, finished_at := Some (now ev w)\<rparr>) w);
          w2 = appendLocalLog instance_id (''state - '' @ status_name st) w1
      in logEvent (if st = Finished then ''info'' else ''warn'') ''state_change''
           (''state - '' @ status_name st @ (if logMsg \<noteq> [] then '' ('' @ logMsg @ '')'' else []))
           instance_id (Str user) traceId w2)"

section \<open>compose: submitting a draft for review\<close>

record hitl_result =
  accepted :: bool
  statusCode :: nat
  hitlError :: jsval
  hitlStatus :: jsval
  hitlInfo :: jsval

text \<open>\<^verbatim>\<open>body && body.k ? body.k : null\<close>.\<close>

definition body_field :: "jsval \<Rightarrow> string \<Rightarrow> jsval" where
  "body_field body k = (if truthy body \<and> truthy (getp body k) then getp body k else Null)"

definition body_info :: "jsval \<Rightarrow> jsval" where
  "body_info body =
     (if truthy body \<and> truthy (js_or (getp body ''information'') (getp body ''info''))
      then js_or (getp body ''information'') (getp body ''info'') else Null)"

definition hitlAccepted :: "nat \<Rightarrow> jsval \<Rightarrow> jsval \<Rightarrow> bool" where
  "hitlAccepted st err hstatus =
     ((st = 200 \<or> st = 202) \<and> \<not> truthy err \<and> hstatus \<noteq> Str ''no-hitl'' \<and> hstatus \<noteq> Str ''skip'')"

text \<open>\<^verbatim>\<open>${v ? ` label${v}` : ''}\<close>, a part of a template literal.\<close>

definition opt_part :: "string \<Rightarrow> jsval \<Rightarrow> js_error + string" where
  "opt_part label v =
     (if truthy v then (case js_toString v of Inl e \<Rightarrow> Inl e | Inr s \<Rightarrow> Inr (label @ s))
      else Inr [])"

definition normalize_review :: "nat \<Rightarrow> jsval \<Rightarrow> hitl_result" where
  "normalize_review st body =
     \<lparr>accepted = hitlAccepted st (body_field body ''error'') (body_field body ''status''),
      statusCode = st,
      hitlError = body_field body ''error'',
      hitlStatus = body_field body ''status'',
      hitlInfo = body_info body\<rparr>"

text \<open>
  The tail that the reason and the note of a rejected submission share: the status code,
  then the error, the status and the information of the body where they are truthy.
\<close>

definition reject_detail :: "hitl_result \<Rightarrow> js_error + string" where
  "reject_detail r =
     (case opt_part '' error='' (hitlError r) of
        Inl e \<Rightarrow> Inl e
      | Inr a \<Rightarrow>
          (case opt_part '' status='' (hitlStatus r) of
             Inl e \<Rightarrow> Inl e
           | Inr b \<Rightarrow>
               (case opt_part '' info='' (hitlInfo r) of
                  Inl e \<Rightarrow> Inl e
                | Inr c \<Rightarrow> Inr (show_nat (statusCode r) @ a @ b @ c))))"

definition submitHitlAndHandle ::
  "env \<Rightarrow> string \<Rightarrow> jsval \<Rightarrow> jsval \<Rightarrow> jsval \<Rightarrow> nat \<Rightarrow> jsval \<Rightarrow> bool \<Rightarrow> world
     \<Rightarrow> (js_error + hitl_result) \<times> world" where
  "submitHitlAndHandle ev instanceId username html hitlConfig loopIndex traceId abortOnFail w =
     (case callHitlAgent ev instanceId html hitlConfig loopIndex w of
        (Inl e, w1) \<Rightarrow> (Inl e, w1)
      | (Inr (st, body), w1) \<Rightarrow>
          let r = normalize_review st body
          in if \<not> accepted r \<and> abortOnFail
             then (case reject_detail r of
                     Inl e \<Rightarrow> (Inl e, w1)
                   | Inr detail \<Rightarrow>
                       let reason = ''HITL submission rejected: status='' @ detail;
                           wa = appendLocalLog instanceId reason w1;
                           wb = logEvent ''warn'' ''record'' reason instanceId username traceId wa
                       in (Inr r, abortInstance ev instanceId username traceId
                                    (''HITL submission failed: '' @ detail) wb))
             else if accepted r
             then let msg = ''HITL submission accepted ('' @ show_nat st @ '')'';
                      wa = logEvent ''info'' ''progress'' msg instanceId username traceId w1;
                      wb = appendLocalLog instanceId msg wa;
                      wc = updateMeta instanceId (\<lambda>prev. prev\<lparr>status := Some Wait\<rparr>) wb;
                      wd = appendLocalLog instanceId ''state - wait'' wc
                  in (Inr r, logEvent ''info'' ''state_change'' ''state - wait'' instanceId username traceId wd)
             else (Inr r, w1))"

section \<open>compose: reading a request\<close>

text \<open>\<^verbatim>\<open>trace_id || crypto.randomBytes(6).toString('hex')\<close>.\<close>

definition request_traceId :: "env \<Rightarrow> jsval \<Rightarrow> jsval" where
  "request_traceId ev body = js_or (getp body ''trace_id'') (Str (gen_trace_id ev))"

text \<open>\<^verbatim>\<open>regen_base_html: base_html = ''\<close>: the default stands in for an absent member only.\<close>

definition send_base_html :: "jsval \<Rightarrow> jsval" where
  "send_base_html payload =
     (if getp payload ''regen_base_html'' = Undefined then Str [] else getp payload ''regen_base_html'')"

text \<open>\<^verbatim>\<open>if (!validateInstanceId(instance_id)) instance_id = generateInstanceId()\<close>.\<close>

definition send_instance_id :: "env \<Rightarrow> jsval \<Rightarrow> string" where
  "send_instance_id ev payload =
     (if validateInstanceId (getp payload ''instance_id'')
      then str_of (getp payload ''instance_id'') else gen_instance_id ev)"

section \<open>compose: the abort request\<close>


section \<open>compose: the review callback\<close>

definition delivery_request :: "string \<Rightarrow> string \<Rightarrow> string \<Rightarrow> merged \<Rightarrow> jsval \<Rightarrow> jsval" where
  "delivery_request instance_id user html mg trace_id =
     json_obj [(''instance_id'', Str instance_id), (''username'', Str user),
               (''html'', Str html), (''subject'', subject mg),
               (''sender_email'', sender_email mg), (''sender_name'', sender_name mg),
               (''to'', to mg), (''cc'', cc mg), (''bcc'', bcc mg),
               (''trace_id'', trace_id)]"

definition handler_approve ::
  "env \<Rightarrow> string \<Rightarrow> string \<Rightarrow> jsval \<Rightarrow> merged \<Rightarrow> world \<Rightarrow> (js_error + unit) \<times> world" where
  "handler_approve ev instance_id user traceId mg w =
     (let html = readLatestEmailHtml instance_id w
      in case callEmailAgent ev (delivery_request instance_id user html mg traceId) w of
           (Inr sent, w1) \<Rightarrow> (Inr (), finishAs ev instance_id user traceId Finished ''hitl approve'' w1)
         | (Inl e, w1) \<Rightarrow>
             (Inl (JsError ''Error'' (err_text e)),
              finishAs ev instance_id user traceId Abort (''email send failed: '' @ err_text e) w1))"

definition handler_reject ::
  "env \<Rightarrow> string \<Rightarrow> string \<Rightarrow> jsval \<Rightarrow> jsval \<Rightarrow> world \<Rightarrow> (js_error + unit) \<times> world" where
  "handler_reject ev instance_id user traceId information w =
     (if truthy information
      then (case js_toString information of
              Inl e \<Rightarrow> (Inl e, w)
            | Inr s \<Rightarrow> (Inr (), finishAs ev instance_id user traceId Abort s w))
      else (Inr (), finishAs ev instance_id user traceId Abort ''hitl reject'' w))"

definition count_of :: "meta \<Rightarrow> nat" where
  "count_of m = (case gen_count m of None \<Rightarrow> 0 | Some n \<Rightarrow> n)"

definition review_config :: "jsval \<Rightarrow> jsval" where
  "review_config cfg =
     js_or (getp cfg ''human-in-the-loop'') (js_or (getp cfg ''hitl'') (js_or (getp cfg ''HITL'') (Obj [])))"

definition resubmit_detail :: "hitl_result \<Rightarrow> js_error + string" where
  "resubmit_detail r =
     (case opt_part '' detail='' (js_or (hitlError r) (js_or (hitlInfo r) (hitlStatus r))) of
        Inl e \<Rightarrow> Inl e
      | Inr d \<Rightarrow> Inr (show_nat (statusCode r) @ d))"

text \<open>\<^verbatim>\<open>rawInstr && rawInstr.trim() ? `[Key Instruction] ${rawInstr.trim()}` : ''\<close>.\<close>

definition key_instruction :: "string \<Rightarrow> string" where
  "key_instruction rawInstr =
     (if rawInstr \<noteq> [] \<and> trim rawInstr \<noteq> [] then ''[Key Instruction] '' @ trim rawInstr else [])"

text \<open>The \<^verbatim>\<open>try\<close> block of the modify branch.\<close>

definition modify_try ::
  "env \<Rightarrow> string \<Rightarrow> string \<Rightarrow> jsval \<Rightarrow> merged \<Rightarrow> string \<Rightarrow> nat \<Rightarrow> string \<Rightarrow> world
     \<Rightarrow> (js_error + unit) \<times> world" where
  "modify_try ev instance_id user traceId mg newInstr nextGen baseHtml w =
     (let w1 = logEvent ''info'' ''record''
                 (''Calling LLM to re-generate email ('' @ show_nat nextGen @ '')'')
                 instance_id (Str user) traceId w
      in case callAuthorAgent ev
                (draft_request instance_id (Str user) (Str newInstr) (Str baseHtml)
                   (subject mg) traceId) w1 of
           (Inl e, w2) \<Rightarrow> (Inl e, w2)
         | (Inr authorResp, w2) \<Rightarrow>
             let hitlCfg = review_config (loadInstanceConfig instance_id w2)
             in if authorResp = Null
                then (Inl (JsError ''TypeError'' ''Cannot read properties of null (reading html)''), w2)
                else (case submitHitlAndHandle ev instance_id (Str user) (getp authorResp ''html'')
                             hitlCfg (nextGen - 1) traceId False w2 of
                        (Inl e, w3) \<Rightarrow> (Inl e, w3)
                      | (Inr hitlResult, w3) \<Rightarrow>
                          if \<not> accepted hitlResult
                          then (case resubmit_detail hitlResult of
                                  Inl e \<Rightarrow> (Inl e, w3)
                                | Inr d \<Rightarrow>
                                    (Inl (JsError ''Error'' (''HITL resubmit failed '' @ d)),
                                     abortInstance ev instance_id (Str user) traceId
                                       (''HITL resubmit failed: '' @ d) w3))
                          else (Inr (), w3)))"

definition handler_modify ::
  "env \<Rightarrow> string \<Rightarrow> string \<Rightarrow> jsval \<Rightarrow> merged \<Rightarrow> jsval \<Rightarrow> jsval \<Rightarrow> world
     \<Rightarrow> (js_error + unit) \<times> world" where
  "handler_modify ev instance_id user traceId mg instructions information w =
     (case js_or instructions (js_or information (Str [])) of
        Str rawInstr \<Rightarrow>
          let newInstr = key_instruction rawInstr;
              nextGen = count_of (readMeta instance_id w) + 1;
              w1 = updateMeta instance_id
                     (\<lambda>prev. prev\<lparr>gen_count := Some (count_of prev + 1), status := Some Active\<rparr>) w;
              baseHtml = readLatestEmailHtml instance_id w1
          in (case modify_try ev instance_id user traceId mg newInstr nextGen baseHtml w1 of
                (Inr u, w2) \<Rightarrow> (Inr (), w2)
              | (Inl e, w2) \<Rightarrow>
                  (Inl e, finishAs ev instance_id user traceId Abort
                            (''modify failed: '' @ err_text e) w2))
      | other \<Rightarrow> (Inl (JsError ''TypeError'' ''rawInstr.trim is not a function''), w))"

text \<open>\<^verbatim>\<open>information ? ` info='${String(information)}'` : ''\<close>.\<close>

definition info_text :: "jsval \<Rightarrow> js_error + string" where
  "info_text information =
     (if truthy information
      then (case js_toString information of
              Inl e \<Rightarrow> Inl e
            | Inr s \<Rightarrow> Inr ('' info='' @ [CHR 0x27] @ s @ [CHR 0x27]))
      else Inr [])"

text \<open>The closure \<^verbatim>\<open>handler\<close> of \<^verbatim>\<open>handleHitlCallback\<close>.\<close>

definition handler ::
  "env \<Rightarrow> string \<Rightarrow> string \<Rightarrow> jsval \<Rightarrow> jsval \<Rightarrow> string \<Rightarrow> jsval \<Rightarrow> world
     \<Rightarrow> (js_error + unit) \<times> world" where
  "handler ev instance_id action information instructions user traceId w =
     (case info_text information of
        Inl e \<Rightarrow> (Inl e, w)
      | Inr infoText \<Rightarrow>
          let line = ''hitl-callback: '' @ (if action \<noteq> [] then action else ''unknown'') @ infoText;
              w1 = appendLocalLog instance_id line w;
              w2 = logEvent ''info'' ''record'' line instance_id (Str user) traceId w1;
              mg = mergeConfig instance_id (Obj []) w2
          in if action = ''approve'' then handler_approve ev instance_id user traceId mg w2
             else if action = ''reject'' then handler_reject ev instance_id user traceId information w2
             else if action = ''modify''
             then handler_modify ev instance_id user traceId mg instructions information w2
             else (Inl (JsError ''Error'' ''unknown_hitl_result''), w2))"

text \<open>
  \<^verbatim>\<open>(username || '').trim() || 'unknown'\<close>: a username that is not a string has no
  \<^verbatim>\<open>trim\<close>, and the TypeError leaves the handler with no reply sent.
\<close>

definition callback_user :: "jsval \<Rightarrow> js_error + string" where
  "callback_user username =
     (case js_or username (Str []) of
        Str s \<Rightarrow> Inr (if trim s \<noteq> [] then trim s else ''unknown'')
      | other \<Rightarrow> Inl (JsError ''TypeError'' ''username.trim is not a function''))"

text \<open>\<^verbatim>\<open>(response || result || '').toString().toLowerCase()\<close>.\<close>

definition callback_action :: "jsval \<Rightarrow> js_error + string" where
  "callback_action body =
     (case js_toString (js_or (getp body ''response'') (js_or (getp body ''result'') (Str []))) of
        Inl e \<Rightarrow> Inl e
      | Inr s \<Rightarrow> Inr (toLowerCase s))"

text \<open>
  \<^verbatim>\<open>handleHitlCallback\<close>. A TypeError from the action or the username leaves the function
  before any reply is sent: the result \<open>Inl\<close>. With \<^verbatim>\<open>async: true\<close> the acknowledgment is
  sent and the handler runs detached, its failure going to the local log; otherwise the
  handler runs first and its outcome is the reply.
\<close>

definition handleHitlCallback :: "env \<Rightarrow> jsval \<Rightarrow> world \<Rightarrow> (js_error + reply) \<times> world" where
  "handleHitlCallback ev body0 w =
     (let body = js_or body0 (Obj []);
          instance_id = getp body ''instance_id''
      in case callback_action body of
           Inl e \<Rightarrow> (Inl e, w)
         | Inr action \<Rightarrow>
             if \<not> validateInstanceId instance_id
             then (Inr (Reply 400 (Obj [(''error'', Str ''instance_id_required'')])), w)
             else (case callback_user (getp body ''username'') of
                     Inl e \<Rightarrow> (Inl e, w)
                   | Inr user \<Rightarrow>
                       let traceId = request_traceId ev body
                       in if getp body ''async'' = Bool True
                          then (Inr (Reply 202 (json_obj [(''status'', Str ''accepted''),
                                                          (''instance_id'', instance_id),
                                                          (''trace_id'', traceId)])),
                                (case handler ev (str_of instance_id) action (getp body ''information'')
                                        (getp body ''instructions'') user traceId w of
                                   (Inl e, w1) \<Rightarrow> appendLocalLog (str_of instance_id)
                                                    (''hitl-callback async error: '' @ err_text e) w1
                                 | (Inr u, w1) \<Rightarrow> w1))
                          else (case handler ev (str_of instance_id) action (getp body ''information'')
                                       (getp body ''instructions'') user traceId w of
                                  (Inr u, w1) \<Rightarrow> (Inr (Reply 200 (Obj [(''ok'', Bool True)])), w1)
                                | (Inl e, w1) \<Rightarrow>
                                    (Inr (Reply 400 (Obj [(''error'', Str ''hitl_callback_failed''),
                                                          (''detail'', if err_message e \<noteq> []
                                                                       then Str (err_message e) else Obj [])])),
                                     w1))))"

section \<open>compose: the send request\<close>

definition runFlow ::
  "env \<Rightarrow> string \<Rightarrow> jsval \<Rightarrow> jsval \<Rightarrow> jsval \<Rightarrow> merged \<Rightarrow> jsval \<Rightarrow> world
     \<Rightarrow> (js_error + jsval) \<times> world" where
  "runFlow ev instance_id username instructions base_html mg traceId w =
     (let w1 = updateMeta instance_id (\<lambda>prev. prev\<lparr>gen_count := Some (count_of prev + 1)\<rparr>) w;
          genMeta = readMeta instance_id w1;
          w2 = logEvent ''info'' ''record'' ''Calling LLM to generate email''
                 instance_id username traceId w1
      in case callAuthorAgent ev
                (draft_request instance_id username instructions base_html (subject mg) traceId) w2 of
           (Inl e, w3) \<Rightarrow> (Inl e, w3)
         | (Inr authorResp, w3) \<Rightarrow>
             let hitlCfg = review_config (loadInstanceConfig instance_id w3);
                 loopIdx = (if count_of genMeta \<noteq> 0 then count_of genMeta - 1 else 0)
             in if authorResp = Null
                then (Inl (JsError ''TypeError'' ''Cannot read properties of null (reading html)''), w3)
                else (case submitHitlAndHandle ev instance_id username (getp authorResp ''html'')
                            hitlCfg loopIdx traceId True w3 of
                       (Inl e, w4) \<Rightarrow> (Inl e, w4)
                     | (Inr hitlResult, w4) \<Rightarrow>
                         if \<not> accepted hitlResult
                         then (Inr (json_obj
                                 [(''error'', Str ''hitl_submit_failed''),
                                  (''status'', Num (int (statusCode hitlResult))),
                                  (''detail'', js_or (hitlError hitlResult)
                                                 (js_or (hitlInfo hitlResult)
                                                   (js_or (hitlStatus hitlResult) Undefined)))]), w4)
                         else (Inr (json_obj
                                 [(''instance_id'', Str instance_id), (''trace_id'', traceId),
                                  (''draft_html'', getp authorResp ''html''),
                                  (''send_result'', Null)]), w4)))"

text \<open>
  \<^verbatim>\<open>handleComposeSend\<close>. With \<^verbatim>\<open>async: true\<close> the acknowledgment is sent and \<^verbatim>\<open>runFlow\<close> runs
  detached, its failure going to the log service; otherwise \<^verbatim>\<open>runFlow\<close> runs first and its
  outcome is the reply.
\<close>

definition handleComposeSend :: "env \<Rightarrow> jsval \<Rightarrow> world \<Rightarrow> reply \<times> world" where
  "handleComposeSend ev payload0 w =
     (let payload = js_or payload0 (Obj []);
          username = getp payload ''username'';
          instructions = getp payload ''instructions'';
          base_html = send_base_html payload
      in if \<not> truthy username
         then (Reply 400 (Obj [(''error'', Str ''username_required'')]), w)
         else if \<not> truthy instructions \<and> \<not> truthy base_html
         then (Reply 400 (Obj [(''error'', Str ''instructions_required'')]), w)
         else
           let instance_id = send_instance_id ev payload;
               traceId = request_traceId ev payload;
               w1 = ensureDir (getInstancePaths instance_id w) w;
               mg = mergeConfig instance_id payload w1;
               recipients = requireRecipients (to mg) (cc mg) (bcc mg)
           in if \<not> truthy (subject mg)
              then (Reply 400 (Obj [(''error'', Str ''subject_missing_after_merge'')]), w1)
              else if recipients = None
              then (Reply 400 (Obj [(''error'', Str ''recipients_missing_after_merge'')]), w1)
              else
                let w2 = logEvent ''info'' ''record'' ''Email-App Agent received call to launch''
                           instance_id username traceId w1;
                    w3 = markInstanceActive ev instance_id username w2;
                    w4 = logEvent ''info'' ''state_change'' ''state - active''
                           instance_id username traceId w3
                in if getp payload ''async'' = Bool True
                   then (Reply 202 (json_obj [(''status'', Str ''accepted''),
                                              (''instance_id'', Str instance_id),
                                              (''trace_id'', traceId)]),
                         (case runFlow ev instance_id username instructions base_html mg traceId w4 of
                            (Inl e, w5) \<Rightarrow> logEvent ''error'' ''record''
                                             (''Compose async error: '' @ err_text e)
                                             instance_id username traceId w5
                          | (Inr result, w5) \<Rightarrow> w5))
                   else (case runFlow ev instance_id username instructions base_html mg traceId w4 of
                           (Inr result, w5) \<Rightarrow> (Reply 200 result, w5)
                         | (Inl e, w5) \<Rightarrow>
                             (Reply 502 (json_obj
                                [(''error'', Str ''compose_failed''),
                                 (''detail'', if err_message e \<noteq> [] then Str (err_message e) else Obj []),
                                 (''instance_id'', Str instance_id), (''trace_id'', traceId)]),
                              logEvent ''error'' ''record'' (''Compose error: '' @ err_text e)
                                instance_id username traceId w5)))"

text \<open>
  The world in which \<^verbatim>\<open>runFlow\<close> starts for a request that passed the checks (the directory
  made, the launch logged, the record marked active), and the run of \<^verbatim>\<open>runFlow\<close> from there.
\<close>

abbreviation flow_start :: "env \<Rightarrow> jsval \<Rightarrow> world \<Rightarrow> world" where
  "flow_start ev payload w \<equiv>
     logEvent ''info'' ''state_change'' ''state - active'' (send_instance_id ev payload)
       (getp payload ''username'') (request_traceId ev payload)
       (markInstanceActive ev (send_instance_id ev payload) (getp payload ''username'')
          (logEvent ''info'' ''record'' ''Email-App Agent received call to launch''
             (send_instance_id ev payload) (getp payload ''username'') (request_traceId ev payload)
             (ensureDir (getInstancePaths (send_instance_id ev payload) w) w)))"

abbreviation send_flow :: "env \<Rightarrow> jsval \<Rightarrow> world \<Rightarrow> (js_error + jsval) \<times> world" where
  "send_flow ev payload w \<equiv>
     runFlow ev (send_instance_id ev payload) (getp payload ''username'')
       (getp payload ''instructions'') (send_base_html payload)
       (mergeConfig (send_instance_id ev payload) payload w) (request_traceId ev payload)
       (flow_start ev payload w)"

section \<open>A concrete run\<close>

text \<open>
  One instance \<open>i1\<close> whose stored configuration holds the subject and one recipient,
  whose first draft \<open>H1\<close> has been submitted and accepted for review, and collaborators that
  all answer with success. The later sections evaluate the handlers on it.
\<close>

definition demo_clock :: "nat \<Rightarrow> string" where
  "demo_clock n = (if n = 0 then ''2026-01-01 10:00:00'' else ''2026-01-01 10:05:00'')"

definition demo_env :: env where
  "demo_env = \<lparr>author_reply = Response 200 [] (Inr (Obj [(''html'', Str ''H1'')])),
               author_draft = Some ''H1'',
               hitl_reply = Response 202 [] (Inr (Obj [(''status'', Str ''queued'')])),
               email_reply = Response 200 [] (Inr (Obj [(''id'', Str ''m1'')])),
               email_draft = Some ''H1'',
               gen_instance_id = ''i1'', gen_trace_id = ''abcdef'',
               clock = demo_clock, HITL_URL = ''http://127.0.0.1:3001/api/hitl-agent''\<rparr>"

definition demo_config :: jsval where
  "demo_config = Obj [(''subject'', Str ''Hi''), (''to'', Arr [Str ''a@x.com''])]"

definition demo_wait_meta :: meta where
  "demo_wait_meta = \<lparr>status = Some Wait, gen_count = Some 1, started_at = Some ''2026-01-01 09:00:00'',
                      finished_at = None, owner = Some (Str ''alice'')\<rparr>"

definition demo_dir :: "string list" where
  "demo_dir = [''srv'', ''agents'', ''email-app'', ''i1'']"

definition demo_wait_world :: world where
  "demo_wait_world = \<lparr>instance_root = [''srv'', ''agents''],
                      metas = (\<lambda>d. if d = demo_dir then Some demo_wait_meta else None),
                      configs = (\<lambda>d. if d = demo_dir then Some demo_config else None),
                      drafts = (\<lambda>d. if d = demo_dir then Some ''H1'' else None),
                      dirs = {demo_dir}, trace = [], ticks = 0\<rparr>"



definition demo_approve :: jsval where
  "demo_approve = Obj [(''instance_id'', Str ''i1''), (''response'', Str ''approve'')]"



text \<open>The same instance after it has been delivered.\<close>

definition demo_finished_world :: world where
  "demo_finished_world =
     demo_wait_world\<lparr>metas := (\<lambda>d. if d = demo_dir
                                     then Some (demo_wait_meta\<lparr>status := Some Finished,
                                                  finished_at := Some ''2026-01-01 09:30:00''\<rparr>)
                                     else None)\<rparr>"


text \<open>Guidance with white space at both ends: a space, and a no-break space (U+00A0).\<close>

definition demo_guidance :: string where
  "demo_guidance = '' Make it shorter'' @ [CHR 0xC2, CHR 0xA0]"

definition demo_modify :: jsval where
  "demo_modify = Obj [(''instance_id'', Str ''i1''), (''response'', Str ''modify''),
                      (''instructions'', Str demo_guidance)]"

text \<open>A modify callback whose instructions are a number.\<close>

definition demo_modify_numeric :: jsval where
  "demo_modify_numeric =
     Obj [(''instance_id'', Str ''i1''), (''response'', Str ''modify''), (''instructions'', Num 5)]"

text \<open>Modify callbacks with plain guidance, one with a number as username, one with an
  information that has no conversion to a string.\<close>

definition demo_modify_numeric_user :: jsval where
  "demo_modify_numeric_user =
     Obj [(''instance_id'', Str ''i1''), (''response'', Str ''modify''),
          (''instructions'', Str ''Make it shorter''), (''username'', Num 5)]"

definition demo_modify_opaque_info :: jsval where
  "demo_modify_opaque_info =
     Obj [(''instance_id'', Str ''i1''), (''response'', Str ''modify''),
          (''instructions'', Str ''Make it shorter''),
          (''information'', Obj [(''toString'', Num 1)])]"

text \<open>A first send request for a new instance, and a world that holds nothing yet.\<close>

definition demo_send :: jsval where
  "demo_send = Obj [(''username'', Str ''alice''), (''instructions'', Str ''Say hello''),
                    (''subject'', Str ''Hi''), (''to'', Arr [Str ''a@x.com''])]"

definition demo_new_world :: world where
  "demo_new_world = \<lparr>instance_root = [''srv'', ''agents''],
                     metas = (\<lambda>d. None), configs = (\<lambda>d. None), drafts = (\<lambda>d. None),
                     dirs = {}, trace = [], ticks = 0\<rparr>"

text \<open>The same collaborators, with the review service answering 500 and an error.\<close>

definition demo_env_review_down :: env where
  "demo_env_review_down =
     demo_env\<lparr>hitl_reply := Response 500 [] (Inr (Obj [(''error'', Str ''down'')]))\<rparr>"

text \<open>The same collaborators, with the drafting service answering 500.\<close>

definition demo_env_author_down :: env where
  "demo_env_author_down =
     demo_env\<lparr>author_reply := Response 500 ''boom'' (Inl (JsError ''SyntaxError'' ''Unexpected token''))\<rparr>"

section \<open>author-agent: generating a draft\<close>






text \<open>\<^verbatim>\<open>a && b\<close>.\<close>

definition js_and :: "jsval \<Rightarrow> jsval \<Rightarrow> jsval" where
  "js_and a b = (if truthy a then b else a)"

text \<open>
  \<^verbatim>\<open>resolvePromptPath\<close>. Which file it picks shows in \<open>prompt_text\<close>. What is kept of it
  here is its exception: \<^verbatim>\<open>path.isAbsolute\<close> takes strings only, and throws a TypeError for a
  \<^verbatim>\<open>PROMPT_FILE\<close> of the instance configuration that is truthy and not a string. The
  \<^verbatim>\<open>PROMPT_FILE\<close> of the two environments is a string.
\<close>

definition resolvePromptPath :: "jsval \<Rightarrow> js_error + unit" where
  "resolvePromptPath instanceConfig =
     (case js_and instanceConfig (getp instanceConfig ''PROMPT_FILE'') of
        Str s \<Rightarrow> Inr ()
      | other \<Rightarrow>
          if truthy other
          then Inl (JsError ''TypeError'' ''The path argument must be of type string'')
          else Inr ())"









section \<open>author-agent: the LLM providers\<close>








section \<open>author-agent: cleaning the provider's answer\<close>





section \<open>author-agent: the generate request\<close>







text \<open>Instructions with white space at both ends: two spaces, and a line feed.\<close>

definition demo_instructions :: string where
  "demo_instructions = ''  Say hello'' @ [CHR 0x0A]"




section \<open>Properties: frames of the primitives\<close>

lemma emit_proj [simp]:
  "instance_root (emit e w) = instance_root w"
  "metas (emit e w) = metas w" "configs (emit e w) = configs w" "drafts (emit e w) = drafts w"
  "dirs (emit e w) = dirs w" "ticks (emit e w) = ticks w" "trace (emit e w) = trace w @ [e]"
  by (simp_all add: emit_def)

lemma appendLocalLog_proj [simp]:
  "instance_root (appendLocalLog i m w) = instance_root w"
  "metas (appendLocalLog i m w) = metas w" "configs (appendLocalLog i m w) = configs w"
  "drafts (appendLocalLog i m w) = drafts w" "dirs (appendLocalLog i m w) = dirs w"
  "ticks (appendLocalLog i m w) = ticks w"
  "trace (appendLocalLog i m w) = trace w @ [LocalLog i m]"
  by (simp_all add: appendLocalLog_def)

lemma logEvent_proj [simp]:
  "instance_root (logEvent l t m i u tr w) = instance_root w"
  "metas (logEvent l t m i u tr w) = metas w" "configs (logEvent l t m i u tr w) = configs w"
  "drafts (logEvent l t m i u tr w) = drafts w" "dirs (logEvent l t m i u tr w) = dirs w"
  "ticks (logEvent l t m i u tr w) = ticks w"
  "trace (logEvent l t m i u tr w) = trace w @ [LogEvent l t m i u tr]"
  by (simp_all add: logEvent_def)

lemma tick_proj [simp]:
  "instance_root (tick w) = instance_root w"
  "metas (tick w) = metas w" "configs (tick w) = configs w" "drafts (tick w) = drafts w"
  "dirs (tick w) = dirs w" "ticks (tick w) = Suc (ticks w)" "trace (tick w) = trace w"
  by (simp_all add: tick_def)

lemma ensureDir_proj [simp]:
  "instance_root (ensureDir d w) = instance_root w"
  "metas (ensureDir d w) = metas w" "configs (ensureDir d w) = configs w"
  "drafts (ensureDir d w) = drafts w" "ticks (ensureDir d w) = ticks w"
  "trace (ensureDir d w) = trace w" "dirs (ensureDir d w) = insert d (dirs w)"
  by (simp_all add: ensureDir_def)

lemma updateMeta_proj [simp]:
  "instance_root (updateMeta i f w) = instance_root w"
  "metas (updateMeta i f w) = (metas w)(getInstancePaths i w := Some (f (readMeta i w)))"
  "configs (updateMeta i f w) = configs w" "drafts (updateMeta i f w) = drafts w"
  "ticks (updateMeta i f w) = ticks w"
  "trace (updateMeta i f w) = trace w @ [MetaWrite (getInstancePaths i w) (f (readMeta i w))]"
  "dirs (updateMeta i f w) = insert (getInstancePaths i w) (dirs w)"
  by (simp_all add: updateMeta_def Let_def)

lemma collaborator_wrote_proj [simp]:
  "instance_root (collaborator_wrote b fl w) = instance_root w"
  "metas (collaborator_wrote b fl w) = metas w" "configs (collaborator_wrote b fl w) = configs w"
  "ticks (collaborator_wrote b fl w) = ticks w" "trace (collaborator_wrote b fl w) = trace w"
  "dirs (collaborator_wrote b fl w) = dirs w"
  by (simp_all add: collaborator_wrote_def split: option.splits)

lemma getInstancePaths_frame [simp]:
  "getInstancePaths i (emit e w) = getInstancePaths i w"
  "getInstancePaths i (appendLocalLog j m w) = getInstancePaths i w"
  "getInstancePaths i (logEvent l t m j u tr w) = getInstancePaths i w"
  "getInstancePaths i (tick w) = getInstancePaths i w"
  "getInstancePaths i (ensureDir d w) = getInstancePaths i w"
  "getInstancePaths i (updateMeta j f w) = getInstancePaths i w"
  "getInstancePaths i (collaborator_wrote b fl w) = getInstancePaths i w"
  by (simp_all add: getInstancePaths_def)

lemma readMeta_frame [simp]:
  "readMeta i (emit e w) = readMeta i w" "readMeta i (appendLocalLog j m w) = readMeta i w"
  "readMeta i (logEvent l t m j u tr w) = readMeta i w" "readMeta i (tick w) = readMeta i w"
  "readMeta i (ensureDir d w) = readMeta i w" "readMeta i (collaborator_wrote b fl w) = readMeta i w"
  "readMeta i (updateMeta i f w) = f (readMeta i w)"
  by (simp_all add: readMeta_def)

lemma loadInstanceConfig_frame [simp]:
  "loadInstanceConfig i (emit e w) = loadInstanceConfig i w"
  "loadInstanceConfig i (appendLocalLog j m w) = loadInstanceConfig i w"
  "loadInstanceConfig i (logEvent l t m j u tr w) = loadInstanceConfig i w"
  "loadInstanceConfig i (tick w) = loadInstanceConfig i w"
  "loadInstanceConfig i (ensureDir d w) = loadInstanceConfig i w"
  "loadInstanceConfig i (updateMeta j f w) = loadInstanceConfig i w"
  "loadInstanceConfig i (collaborator_wrote b fl w) = loadInstanceConfig i w"
  by (simp_all add: loadInstanceConfig_def)

lemma mergeConfig_frame [simp]:
  "mergeConfig i p (emit e w) = mergeConfig i p w"
  "mergeConfig i p (appendLocalLog j m w) = mergeConfig i p w"
  "mergeConfig i p (logEvent l t m j u tr w) = mergeConfig i p w"
  "mergeConfig i p (tick w) = mergeConfig i p w"
  "mergeConfig i p (ensureDir d w) = mergeConfig i p w"
  "mergeConfig i p (updateMeta j f w) = mergeConfig i p w"
  "mergeConfig i p (collaborator_wrote b fl w) = mergeConfig i p w"
  by (simp_all add: mergeConfig_def)

lemma readLatestEmailHtml_frame [simp]:
  "readLatestEmailHtml i (emit e w) = readLatestEmailHtml i w"
  "readLatestEmailHtml i (appendLocalLog j m w) = readLatestEmailHtml i w"
  "readLatestEmailHtml i (logEvent l t m j u tr w) = readLatestEmailHtml i w"
  "readLatestEmailHtml i (tick w) = readLatestEmailHtml i w"
  "readLatestEmailHtml i (ensureDir d w) = readLatestEmailHtml i w"
  "readLatestEmailHtml i (updateMeta j f w) = readLatestEmailHtml i w"
  by (simp_all add: readLatestEmailHtml_def)

lemma steps_frame [simp]:
  "steps (emit e w) = steps w @ (if is_step e then [e] else [])"
  "steps (appendLocalLog i m w) = steps w"
  "steps (logEvent l t m i u tr w) = steps w"
  "steps (tick w) = steps w"
  "steps (ensureDir d w) = steps w"
  "steps (collaborator_wrote b fl w) = steps w"
  "steps (updateMeta i f w) = steps w @ [MetaWrite (getInstancePaths i w) (f (readMeta i w))]"
  by (simp_all add: steps_def)

subsection \<open>The two terminal transitions\<close>


lemma abortInstance_steps:
  "steps (abortInstance ev i u t note w) =
     steps w @ [MetaWrite (getInstancePaths i w)
                  ((readMeta i w)\<lparr>status := Some Abort, finished_at := Some (clock ev (ticks w))\<rparr>)]"
  by (simp add: abortInstance_def Let_def now_def)

lemma abortInstance_trace:
  "trace (abortInstance ev i u t note w) =
     trace w @ [MetaWrite (getInstancePaths i w)
                  ((readMeta i w)\<lparr>status := Some Abort, finished_at := Some (clock ev (ticks w))\<rparr>),
                LocalLog i ''state - abort''] @ (if note \<noteq> [] then [LocalLog i note] else []) @
               [LogEvent ''warn'' ''state_change''
                  (if note \<noteq> [] then ''state - abort ('' @ note @ '')'' else ''state - abort'')
                  i (js_or u (Str ''unknown'')) (js_or t (Str (gen_trace_id ev)))]"
  by (simp add: abortInstance_def Let_def now_def)

lemma abortInstance_frame [simp]:
  "instance_root (abortInstance ev i u t note w) = instance_root w"
  "getInstancePaths j (abortInstance ev i u t note w) = getInstancePaths j w"
  "configs (abortInstance ev i u t note w) = configs w"
  "drafts (abortInstance ev i u t note w) = drafts w"
  "ticks (abortInstance ev i u t note w) = Suc (ticks w)"
  "loadInstanceConfig j (abortInstance ev i u t note w) = loadInstanceConfig j w"
  "readLatestEmailHtml j (abortInstance ev i u t note w) = readLatestEmailHtml j w"
  "readMeta i (abortInstance ev i u t note w) =
     (readMeta i w)\<lparr>status := Some Abort, finished_at := Some (clock ev (ticks w))\<rparr>"
  by (simp_all add: abortInstance_def Let_def now_def)

lemma finishAs_metas:
  "metas (finishAs ev i u t st msg w) =
     (metas w)(getInstancePaths i w :=
        Some ((readMeta i w)\<lparr>status := Some st, finished_at := Some (clock ev (ticks w))\<rparr>))"
  by (simp add: finishAs_def Let_def now_def)

lemma finishAs_steps:
  "steps (finishAs ev i u t st msg w) =
     steps w @ [MetaWrite (getInstancePaths i w)
                  ((readMeta i w)\<lparr>status := Some st, finished_at := Some (clock ev (ticks w))\<rparr>)]"
  by (simp add: finishAs_def Let_def now_def)

lemma finishAs_trace:
  "trace (finishAs ev i u t st msg w) =
     trace w @ [MetaWrite (getInstancePaths i w)
                  ((readMeta i w)\<lparr>status := Some st, finished_at := Some (clock ev (ticks w))\<rparr>),
                LocalLog i (''state - '' @ status_name st),
                LogEvent (if st = Finished then ''info'' else ''warn'') ''state_change''
                  (''state - '' @ status_name st @ (if msg \<noteq> [] then '' ('' @ msg @ '')'' else []))
                  i (Str u) t]"
  by (simp add: finishAs_def Let_def now_def)

lemma finishAs_frame [simp]:
  "instance_root (finishAs ev i u t st msg w) = instance_root w"
  "getInstancePaths j (finishAs ev i u t st msg w) = getInstancePaths j w"
  "configs (finishAs ev i u t st msg w) = configs w"
  "drafts (finishAs ev i u t st msg w) = drafts w"
  "ticks (finishAs ev i u t st msg w) = Suc (ticks w)"
  "loadInstanceConfig j (finishAs ev i u t st msg w) = loadInstanceConfig j w"
  "readMeta i (finishAs ev i u t st msg w) =
     (readMeta i w)\<lparr>status := Some st, finished_at := Some (clock ev (ticks w))\<rparr>"
  by (simp_all add: finishAs_def Let_def now_def)

subsection \<open>Converting to a string\<close>

lemma js_toString_Str [simp]: "js_toString (Str s) = Inr s"
  by (simp add: js_toString_def)

lemma js_toString_stringable: "stringable v \<Longrightarrow> js_toString v = Inr (string_of v)"
  by (simp add: js_toString_def)

lemma js_toString_throws: "\<not> stringable v \<Longrightarrow> \<exists>e. js_toString v = Inl e"
  by (simp add: js_toString_def)

lemma falsy_stringable: "\<not> truthy v \<Longrightarrow> stringable v"
  by (cases v) simp_all

lemma opt_part_stringable:
  "stringable v \<Longrightarrow> opt_part label v = Inr (if truthy v then label @ string_of v else [])"
  by (simp add: opt_part_def js_toString_def)

lemma opt_part_throws: "\<not> stringable v \<Longrightarrow> \<exists>e. opt_part label v = Inl e"
  using falsy_stringable [of v] by (auto simp: opt_part_def js_toString_def)

lemma reject_detail_stringable:
  assumes "stringable (hitlError r)" and "stringable (hitlStatus r)" and "stringable (hitlInfo r)"
  shows "reject_detail r =
           Inr (show_nat (statusCode r)
                  @ (if truthy (hitlError r) then '' error='' @ string_of (hitlError r) else [])
                  @ (if truthy (hitlStatus r) then '' status='' @ string_of (hitlStatus r) else [])
                  @ (if truthy (hitlInfo r) then '' info='' @ string_of (hitlInfo r) else []))"
  using assms by (simp add: reject_detail_def opt_part_stringable)

lemma strip_Nil [simp]: "strip pats [] = []"
  by (subst strip.simps) (auto simp: find_Some_iff split: option.splits)

lemma trim_Nil [simp]: "trim [] = []"
  by (simp add: trim_def)

subsection \<open>Submitting for review\<close>

lemma callHitlAgent_response:
  "hitl_reply ev = Response st tx js \<Longrightarrow>
   callHitlAgent ev i html cfg k w =
     (Inr (st, json_or_null js),
      emit (CallHitl (review_request i html cfg k))
        (appendLocalLog i (''HITL submit -> '' @ HITL_URL ev) w))"
  by (simp add: callHitlAgent_def Let_def)

lemma callHitlAgent_netfail:
  "hitl_reply ev = NetFail e \<Longrightarrow>
   callHitlAgent ev i html cfg k w =
     (Inl e,
      emit (CallHitl (review_request i html cfg k))
        (appendLocalLog i (''HITL submit -> '' @ HITL_URL ev) w))"
  by (simp add: callHitlAgent_def Let_def)

lemma submit_netfail:
  assumes "hitl_reply ev = NetFail e"
  shows "fst (submitHitlAndHandle ev i u html cfg k t ab w) = Inl e"
    and "readMeta j (snd (submitHitlAndHandle ev i u html cfg k t ab w)) = readMeta j w"
    and "metas (snd (submitHitlAndHandle ev i u html cfg k t ab w)) = metas w"
    and "steps (snd (submitHitlAndHandle ev i u html cfg k t ab w)) =
           steps w @ [CallHitl (review_request i html cfg k)]"
    and "ticks (snd (submitHitlAndHandle ev i u html cfg k t ab w)) = ticks w"
  by (simp_all add: submitHitlAndHandle_def callHitlAgent_netfail [OF assms] readMeta_def
        getInstancePaths_def)

lemma submit_accepted:
  assumes "hitl_reply ev = Response st tx js" and "accepted (normalize_review st (json_or_null js))"
  shows "fst (submitHitlAndHandle ev i u html cfg k t ab w) = Inr (normalize_review st (json_or_null js))"
    and "readMeta i (snd (submitHitlAndHandle ev i u html cfg k t ab w)) =
           (readMeta i w)\<lparr>status := Some Wait\<rparr>"
    and "metas (snd (submitHitlAndHandle ev i u html cfg k t ab w)) =
           (metas w)(getInstancePaths i w := Some ((readMeta i w)\<lparr>status := Some Wait\<rparr>))"
    and "steps (snd (submitHitlAndHandle ev i u html cfg k t ab w)) =
           steps w @ [CallHitl (review_request i html cfg k),
                      MetaWrite (getInstancePaths i w) ((readMeta i w)\<lparr>status := Some Wait\<rparr>)]"
    and "ticks (snd (submitHitlAndHandle ev i u html cfg k t ab w)) = ticks w"
  using assms(2)
  by (simp_all add: submitHitlAndHandle_def callHitlAgent_response [OF assms(1)] Let_def)

lemma submit_rejected_abort:
  assumes "hitl_reply ev = Response st tx js" and "\<not> accepted (normalize_review st (json_or_null js))"
      and "reject_detail (normalize_review st (json_or_null js)) = Inr d"
  shows "fst (submitHitlAndHandle ev i u html cfg k t True w) = Inr (normalize_review st (json_or_null js))"
    and "readMeta i (snd (submitHitlAndHandle ev i u html cfg k t True w)) =
           (readMeta i w)\<lparr>status := Some Abort, finished_at := Some (clock ev (ticks w))\<rparr>"
    and "steps (snd (submitHitlAndHandle ev i u html cfg k t True w)) =
           steps w @ [CallHitl (review_request i html cfg k),
                      MetaWrite (getInstancePaths i w)
                        ((readMeta i w)\<lparr>status := Some Abort, finished_at := Some (clock ev (ticks w))\<rparr>)]"
    and "LocalLog i (''HITL submission failed: '' @ d)
           \<in> set (trace (snd (submitHitlAndHandle ev i u html cfg k t True w)))"
  using assms(2,3)
  by (simp_all add: submitHitlAndHandle_def callHitlAgent_response [OF assms(1)] Let_def
        abortInstance_steps abortInstance_trace)

lemma submit_rejected_throws:
  assumes "hitl_reply ev = Response st tx js" and "\<not> accepted (normalize_review st (json_or_null js))"
      and "reject_detail (normalize_review st (json_or_null js)) = Inl e"
  shows "fst (submitHitlAndHandle ev i u html cfg k t True w) = Inl e"
    and "readMeta j (snd (submitHitlAndHandle ev i u html cfg k t True w)) = readMeta j w"
    and "steps (snd (submitHitlAndHandle ev i u html cfg k t True w)) =
           steps w @ [CallHitl (review_request i html cfg k)]"
  using assms(2,3)
  by (simp_all add: submitHitlAndHandle_def callHitlAgent_response [OF assms(1)] Let_def
        readMeta_def getInstancePaths_def)

lemma submit_rejected_keep:
  assumes "hitl_reply ev = Response st tx js" and "\<not> accepted (normalize_review st (json_or_null js))"
  shows "fst (submitHitlAndHandle ev i u html cfg k t False w) = Inr (normalize_review st (json_or_null js))"
    and "readMeta j (snd (submitHitlAndHandle ev i u html cfg k t False w)) = readMeta j w"
    and "metas (snd (submitHitlAndHandle ev i u html cfg k t False w)) = metas w"
    and "steps (snd (submitHitlAndHandle ev i u html cfg k t False w)) =
           steps w @ [CallHitl (review_request i html cfg k)]"
    and "ticks (snd (submitHitlAndHandle ev i u html cfg k t False w)) = ticks w"
  using assms(2)
  by (simp_all add: submitHitlAndHandle_def callHitlAgent_response [OF assms(1)] Let_def
        readMeta_def getInstancePaths_def)

lemma submit_frame [simp]:
  "instance_root (snd (submitHitlAndHandle ev i u html cfg k t ab w)) = instance_root w"
  "configs (snd (submitHitlAndHandle ev i u html cfg k t ab w)) = configs w"
  "drafts (snd (submitHitlAndHandle ev i u html cfg k t ab w)) = drafts w"
  by (cases "hitl_reply ev";
      simp add: submitHitlAndHandle_def callHitlAgent_def Let_def split: sum.splits)+

lemma submit_frame_reads [simp]:
  "getInstancePaths j (snd (submitHitlAndHandle ev i u html cfg k t ab w)) = getInstancePaths j w"
  "loadInstanceConfig j (snd (submitHitlAndHandle ev i u html cfg k t ab w)) = loadInstanceConfig j w"
  "readLatestEmailHtml j (snd (submitHitlAndHandle ev i u html cfg k t ab w)) = readLatestEmailHtml j w"
  by (simp_all add: getInstancePaths_def loadInstanceConfig_def readLatestEmailHtml_def)

subsection \<open>Small facts about requests and traces\<close>

lemma valid_id_truthy: "validateInstanceId (getp body k) \<Longrightarrow> js_or body (Obj []) = body"
  by (cases body) (simp_all add: validateInstanceId_def js_or_def)

lemma str_of_Str [simp]: "str_of (Str s) = s"
  by (simp add: str_of_def)

lemma valid_id_Str: "validateInstanceId v \<Longrightarrow> v = Str (str_of v)"
  by (cases v) (simp_all add: validateInstanceId_def str_of_def)

lemma truthy_field_truthy: "truthy (getp body k) \<Longrightarrow> js_or body (Obj []) = body"
  by (cases body) (simp_all add: js_or_def)

lemma is_call_is_step: "is_call e \<Longrightarrow> is_step e"
  by (cases e) simp_all

lemma filter_call_steps: "filter is_call (filter is_step xs) = filter is_call xs"
  by (induction xs) (auto simp: is_call_is_step)

lemma is_call_steps: "filter is_call (trace w) = filter is_call (steps w)"
  unfolding steps_def by (rule filter_call_steps [symmetric])

lemma is_email_call_is_step: "is_email_call e \<Longrightarrow> is_step e"
  by (cases e) simp_all

lemma filter_email_steps: "filter is_email_call (filter is_step xs) = filter is_email_call xs"
  by (induction xs) (auto simp: is_email_call_is_step)

lemma is_email_call_steps: "filter is_email_call (trace w) = filter is_email_call (steps w)"
  unfolding steps_def by (rule filter_email_steps [symmetric])

lemma is_hitl_call_is_step: "is_hitl_call e \<Longrightarrow> is_step e"
  by (cases e) simp_all

lemma filter_hitl_steps: "filter is_hitl_call (filter is_step xs) = filter is_hitl_call xs"
  by (induction xs) (auto simp: is_hitl_call_is_step)

lemma is_hitl_call_steps: "filter is_hitl_call (trace w) = filter is_hitl_call (steps w)"
  unfolding steps_def by (rule filter_hitl_steps [symmetric])

text \<open>Plain text has no white space at its ends, and \<open>trim\<close> leaves it as it is.\<close>

lemma demo_trim:
  "trim ''i1'' = ''i1''" "trim ''i2'' = ''i2''" "trim ''alice'' = ''alice''"
  "trim ''Make it shorter'' = ''Make it shorter''" "trim ''Say hello'' = ''Say hello''"
  by (simp_all add: trim_def strip.simps white_space_def)

text \<open>
  White space goes at both ends and stays inside: ASCII blanks and line ends, and the
  no-break space, the ideographic space and the byte order mark, each one character of several
  bytes. A zero-width space (U+200B) is no white space.
\<close>

lemma trim_examples:
  "trim demo_guidance = ''Make it shorter''"
  "trim demo_instructions = ''Say hello''"
  "trim [CHR 0xC2, CHR 0xA0] = []"
  "trim ([CHR 0x09, CHR 0xE3, CHR 0x80, CHR 0x80] @ ''a b'' @ [CHR 0xEF, CHR 0xBB, CHR 0xBF, CHR 0x0D]) = ''a b''"
  "trim [CHR 0xE2, CHR 0x80, CHR 0x8B] = [CHR 0xE2, CHR 0x80, CHR 0x8B]"
  "demo_guidance \<noteq> []" "demo_instructions \<noteq> []"
  by (simp_all add: trim_def strip.simps white_space_def demo_guidance_def demo_instructions_def)

text \<open>An identifier of white space only is no identifier.\<close>

lemma validateInstanceId_examples:
  "validateInstanceId (Str ''i1'')"
  "\<not> validateInstanceId (Str [CHR 0xC2, CHR 0xA0])"
  "\<not> validateInstanceId (Str ''  '')"
  "\<not> validateInstanceId (Str [])"
  "\<not> validateInstanceId (Num 5)"
  "\<not> validateInstanceId Null"
  by (simp_all add: validateInstanceId_def trim_def strip.simps white_space_def)

text \<open>
  \<^verbatim>\<open>path.join\<close> normalises: the identifiers \<open>i1\<close>, \<open>i1/\<close>, \<open>./i1\<close> and \<open>x/../i1\<close> name one
  directory, and \<open>i2\<close> another.
\<close>

lemma instance_dir_examples:
  "instance_dir [''srv'', ''agents''] ''i1'' = [''srv'', ''agents'', ''email-app'', ''i1'']"
  "instance_dir [''srv'', ''agents''] ''i1/'' = [''srv'', ''agents'', ''email-app'', ''i1'']"
  "instance_dir [''srv'', ''agents''] ''./i1'' = [''srv'', ''agents'', ''email-app'', ''i1'']"
  "instance_dir [''srv'', ''agents''] ''x/../i1'' = [''srv'', ''agents'', ''email-app'', ''i1'']"
  "instance_dir [''srv'', ''agents''] ''i2'' = [''srv'', ''agents'', ''email-app'', ''i2'']"
  "instance_dir [''srv'', ''agents''] ''..'' = [''srv'', ''agents'']"
  by (simp_all add: instance_dir_def)

lemma demo_paths:
  "getInstancePaths ''i1'' demo_wait_world = demo_dir"
  "getInstancePaths ''i1'' demo_finished_world = demo_dir"
  "getInstancePaths ''i1'' demo_new_world = demo_dir"
  "getInstancePaths ''i2'' demo_wait_world = [''srv'', ''agents'', ''email-app'', ''i2'']"
  by (simp_all add: getInstancePaths_def instance_dir_def demo_wait_world_def demo_finished_world_def
        demo_new_world_def demo_dir_def)


section \<open>The abort request (C7)\<close>




section \<open>Field-level merge of request and stored configuration (C9)\<close>

text \<open>
  C9. Each of the six fields of the merged configuration is decided by that field alone:
  a value the request supplies for it (one that \<^verbatim>\<open>||\<close> takes: a non-empty string, any
  array) is the merged value, whatever the other fields and the stored configuration hold;
  when the request has none, the merged value is what the stored configuration holds for
  that same field (under its name, then under its upper-case legacy name for subject and
  sender), and the default when that is missing too. Nothing of the rule for one field
  mentions another field.
\<close>

theorem mergeConfig_field_level:
  "(truthy (getp p ''subject'') \<longrightarrow> subject (mergeConfig i p w) = getp p ''subject'') \<and>
   (\<not> truthy (getp p ''subject'') \<longrightarrow> subject (mergeConfig i p w) =
        js_or (getp (loadInstanceConfig i w) ''subject'')
          (js_or (getp (loadInstanceConfig i w) ''EMAIL_SUBJECT'') Null)) \<and>
   (truthy (getp p ''to'') \<longrightarrow> to (mergeConfig i p w) = getp p ''to'') \<and>
   (\<not> truthy (getp p ''to'') \<longrightarrow> to (mergeConfig i p w) =
        js_or (getp (loadInstanceConfig i w) ''to'') (Arr [])) \<and>
   (truthy (getp p ''cc'') \<longrightarrow> cc (mergeConfig i p w) = getp p ''cc'') \<and>
   (\<not> truthy (getp p ''cc'') \<longrightarrow> cc (mergeConfig i p w) =
        js_or (getp (loadInstanceConfig i w) ''cc'') (Arr [])) \<and>
   (truthy (getp p ''bcc'') \<longrightarrow> bcc (mergeConfig i p w) = getp p ''bcc'') \<and>
   (\<not> truthy (getp p ''bcc'') \<longrightarrow> bcc (mergeConfig i p w) =
        js_or (getp (loadInstanceConfig i w) ''bcc'') (Arr [])) \<and>
   (truthy (getp p ''sender_email'') \<longrightarrow> sender_email (mergeConfig i p w) = getp p ''sender_email'') \<and>
   (\<not> truthy (getp p ''sender_email'') \<longrightarrow> sender_email (mergeConfig i p w) =
        js_or (getp (loadInstanceConfig i w) ''sender_email'')
          (js_or (getp (loadInstanceConfig i w) ''SENDER_EMAIL'') Null)) \<and>
   (truthy (getp p ''sender_name'') \<longrightarrow> sender_name (mergeConfig i p w) = getp p ''sender_name'') \<and>
   (\<not> truthy (getp p ''sender_name'') \<longrightarrow> sender_name (mergeConfig i p w) =
        js_or (getp (loadInstanceConfig i w) ''sender_name'')
          (js_or (getp (loadInstanceConfig i w) ''SENDER_NAME'') Null))"
  by (simp add: mergeConfig_def Let_def js_or_def)

text \<open>
  Witness for C9: a request that supplies only a subject gets its own subject and the
  stored recipients.
\<close>

theorem mergeConfig_field_level_witness:
  "truthy (getp (Obj [(''subject'', Str ''Hello'')]) ''subject'') \<and>
   \<not> truthy (getp (Obj [(''subject'', Str ''Hello'')]) ''to'') \<and>
   subject (mergeConfig ''i1'' (Obj [(''subject'', Str ''Hello'')]) demo_wait_world) = Str ''Hello'' \<and>
   to (mergeConfig ''i1'' (Obj [(''subject'', Str ''Hello'')]) demo_wait_world) = Arr [Str ''a@x.com'']"
proof -
  have c: "loadInstanceConfig ''i1'' demo_wait_world = demo_config"
    by (simp add: loadInstanceConfig_def demo_paths) (simp add: demo_wait_world_def demo_config_def js_or_def)
  show ?thesis
    using mergeConfig_field_level [of "Obj [(''subject'', Str ''Hello'')]" "''i1''" demo_wait_world]
    by (simp add: c demo_config_def js_or_def)
qed

section \<open>Normalising the review collaborator's response (C4)\<close>

lemma truthy_body_field: "truthy (body_field body k) = truthy (getp body k)"
  by (cases body) (simp_all add: body_field_def)

lemma body_field_eq_Str: "s \<noteq> [] \<Longrightarrow> (body_field body k = Str s) = (getp body k = Str s)"
  by (cases body) (auto simp add: body_field_def)

lemma review_fields_stringable:
  "stringable (getp body ''error'') \<Longrightarrow> stringable (hitlError (normalize_review st body))"
  "stringable (getp body ''status'') \<Longrightarrow> stringable (hitlStatus (normalize_review st body))"
  "stringable (js_or (getp body ''information'') (getp body ''info''))
     \<Longrightarrow> stringable (hitlInfo (normalize_review st body))"
  by (simp_all add: normalize_review_def body_field_def body_info_def)

text \<open>
  C4, as the code has it. The outcome of a submission is accepted exactly when the status
  is 200 or 202, the body's \<open>error\<close> member is absent or falsy, and the body's \<open>status\<close>
  member is neither \<open>no-hitl\<close> nor \<open>skip\<close>. An accepted submission returns its outcome
  and leaves the instance in \<open>wait\<close>. One that is not accepted returns its outcome too:
  on the send path, where the rejection is put into a message, when the body's \<open>error\<close>,
  \<open>status\<close> and \<open>information\<close> (or \<open>info\<close>) members convert to strings, and it leaves the
  instance in \<open>abort\<close>; on the modify path always, and it leaves the record as it is.
\<close>

theorem review_outcome_accepted:
  assumes "hitl_reply ev = Response st tx js"
  shows "(accepted (normalize_review st (json_or_null js)) \<longleftrightarrow>
            (st = 200 \<or> st = 202) \<and> \<not> truthy (getp (json_or_null js) ''error'') \<and>
            getp (json_or_null js) ''status'' \<noteq> Str ''no-hitl'' \<and>
            getp (json_or_null js) ''status'' \<noteq> Str ''skip'') \<and>
         (accepted (normalize_review st (json_or_null js)) \<longrightarrow>
            fst (submitHitlAndHandle ev i u html cfg k t ab w) = Inr (normalize_review st (json_or_null js)) \<and>
            status (readMeta i (snd (submitHitlAndHandle ev i u html cfg k t ab w))) = Some Wait) \<and>
         (\<not> accepted (normalize_review st (json_or_null js)) \<and>
          stringable (getp (json_or_null js) ''error'') \<and>
          stringable (getp (json_or_null js) ''status'') \<and>
          stringable (js_or (getp (json_or_null js) ''information'') (getp (json_or_null js) ''info'')) \<longrightarrow>
            fst (submitHitlAndHandle ev i u html cfg k t True w) = Inr (normalize_review st (json_or_null js)) \<and>
            status (readMeta i (snd (submitHitlAndHandle ev i u html cfg k t True w))) = Some Abort) \<and>
         (\<not> accepted (normalize_review st (json_or_null js)) \<longrightarrow>
            fst (submitHitlAndHandle ev i u html cfg k t False w) = Inr (normalize_review st (json_or_null js)) \<and>
            readMeta i (snd (submitHitlAndHandle ev i u html cfg k t False w)) = readMeta i w)"
proof (intro conjI impI)
  let ?r = "normalize_review st (json_or_null js)"
  show "accepted ?r \<longleftrightarrow>
          (st = 200 \<or> st = 202) \<and> \<not> truthy (getp (json_or_null js) ''error'') \<and>
          getp (json_or_null js) ''status'' \<noteq> Str ''no-hitl'' \<and>
          getp (json_or_null js) ''status'' \<noteq> Str ''skip''"
    by (simp add: normalize_review_def hitlAccepted_def truthy_body_field body_field_eq_Str)
  show "fst (submitHitlAndHandle ev i u html cfg k t ab w) = Inr ?r" if "accepted ?r"
    by (rule submit_accepted(1) [OF assms that])
  show "status (readMeta i (snd (submitHitlAndHandle ev i u html cfg k t ab w))) = Some Wait"
    if "accepted ?r"
    by (simp add: submit_accepted(2) [OF assms that])
  show "fst (submitHitlAndHandle ev i u html cfg k t False w) = Inr ?r" if "\<not> accepted ?r"
    by (rule submit_rejected_keep(1) [OF assms that])
  show "readMeta i (snd (submitHitlAndHandle ev i u html cfg k t False w)) = readMeta i w"
    if "\<not> accepted ?r"
    by (rule submit_rejected_keep(2) [OF assms that])
next
  let ?r = "normalize_review st (json_or_null js)"
  assume a: "\<not> accepted ?r \<and>
          stringable (getp (json_or_null js) ''error'') \<and>
          stringable (getp (json_or_null js) ''status'') \<and>
          stringable (js_or (getp (json_or_null js) ''information'') (getp (json_or_null js) ''info''))"
  then obtain d where d: "reject_detail ?r = Inr d"
    using reject_detail_stringable [of ?r] by (simp add: review_fields_stringable)
  from a have n: "\<not> accepted ?r"
    by simp
  show "fst (submitHitlAndHandle ev i u html cfg k t True w) = Inr ?r"
    by (rule submit_rejected_abort(1) [OF assms n d])
  show "status (readMeta i (snd (submitHitlAndHandle ev i u html cfg k t True w))) = Some Abort"
    by (simp add: submit_rejected_abort(2) [OF assms n d])
qed

text \<open>
  Witness for C4: the response 202 with status \<open>queued\<close> is accepted and the instance
  waits; the response 500 with the error \<open>down\<close> is not accepted, and the instance is
  aborted on the send path and left as it is on the modify path.
\<close>

theorem review_outcome_accepted_witness:
  "hitl_reply demo_env = Response 202 [] (Inr (Obj [(''status'', Str ''queued'')])) \<and>
   map_sum id accepted
     (fst (submitHitlAndHandle demo_env ''i1'' (Str ''alice'') (Str ''H1'') (Obj []) 0 (Str ''abcdef'') True
             demo_wait_world)) = Inr True \<and>
   status (readMeta ''i1'' (snd (submitHitlAndHandle demo_env ''i1'' (Str ''alice'') (Str ''H1'') (Obj []) 0
             (Str ''abcdef'') True demo_wait_world))) = Some Wait \<and>
   hitl_reply demo_env_review_down = Response 500 [] (Inr (Obj [(''error'', Str ''down'')])) \<and>
   stringable (Str ''down'') \<and>
   map_sum id accepted
     (fst (submitHitlAndHandle demo_env_review_down ''i1'' (Str ''alice'') (Str ''H1'') (Obj []) 0
             (Str ''abcdef'') True demo_wait_world)) = Inr False \<and>
   status (readMeta ''i1'' (snd (submitHitlAndHandle demo_env_review_down ''i1'' (Str ''alice'') (Str ''H1'')
             (Obj []) 0 (Str ''abcdef'') True demo_wait_world))) = Some Abort \<and>
   map_sum id accepted
     (fst (submitHitlAndHandle demo_env_review_down ''i1'' (Str ''alice'') (Str ''H1'') (Obj []) 0
             (Str ''abcdef'') False demo_wait_world)) = Inr False \<and>
   readMeta ''i1'' (snd (submitHitlAndHandle demo_env_review_down ''i1'' (Str ''alice'') (Str ''H1'')
             (Obj []) 0 (Str ''abcdef'') False demo_wait_world)) = readMeta ''i1'' demo_wait_world"
  using review_outcome_accepted [of demo_env 202 "[]" "Inr (Obj [(''status'', Str ''queued'')])"
          "''i1''" "Str ''alice''" "Str ''H1''" "Obj []" 0 "Str ''abcdef''" True demo_wait_world]
        review_outcome_accepted [of demo_env_review_down 500 "[]" "Inr (Obj [(''error'', Str ''down'')])"
          "''i1''" "Str ''alice''" "Str ''H1''" "Obj []" 0 "Str ''abcdef''" True demo_wait_world]
  by (auto simp: demo_env_def demo_env_review_down_def json_or_null_def js_or_def)

text \<open>
  Counterexample to C4 as stated. Accepted whenever the transport status is a success
  code, no error is in the body and the status is no sentinel: 201 is a success status
  (\<^verbatim>\<open>res.ok\<close>), the body \<^verbatim>\<open>{}\<close> has no error and no status, and the outcome is not
  accepted. A rejecting response never raises: on the send path the response 500 with the
  body \<^verbatim>\<open>{"error": {"toString": 1}}\<close> makes the submission throw, and the instance is left
  as it was.
\<close>

theorem review_201_not_accepted:
  "http_ok 201 \<and> getp (Obj []) ''error'' = Undefined \<and> getp (Obj []) ''status'' = Undefined \<and>
   map_sum id accepted
     (fst (submitHitlAndHandle (demo_env\<lparr>hitl_reply := Response 201 ''{}'' (Inr (Obj []))\<rparr>)
             ''i1'' (Str ''alice'') (Str ''H1'') (Obj []) 0 (Str ''abcdef'') True demo_wait_world))
     = Inr False \<and>
   isl (fst (submitHitlAndHandle
               (demo_env\<lparr>hitl_reply := Response 500 [] (Inr (Obj [(''error'', Obj [(''toString'', Num 1)])]))\<rparr>)
               ''i1'' (Str ''alice'') (Str ''H1'') (Obj []) 0 (Str ''abcdef'') True demo_wait_world)) \<and>
   status (readMeta ''i1'' (snd (submitHitlAndHandle
               (demo_env\<lparr>hitl_reply := Response 500 [] (Inr (Obj [(''error'', Obj [(''toString'', Num 1)])]))\<rparr>)
               ''i1'' (Str ''alice'') (Str ''H1'') (Obj []) 0 (Str ''abcdef'') True demo_wait_world)))
     = Some Wait"
proof -
  have a: "\<not> accepted (normalize_review 201 (json_or_null (Inr (Obj []))))"
    by (simp add: normalize_review_def hitlAccepted_def)
  have d: "reject_detail (normalize_review 201 (json_or_null (Inr (Obj [])))) = Inr ''201''"
    by (simp add: reject_detail_def opt_part_def normalize_review_def json_or_null_def body_field_def
          body_info_def js_or_def show_nat.simps digit_char_def)
  let ?b = "Inr (Obj [(''error'', Obj [(''toString'', Num 1)])])"
  have b: "\<not> accepted (normalize_review 500 (json_or_null ?b))"
    by (simp add: normalize_review_def hitlAccepted_def)
  have e: "reject_detail (normalize_review 500 (json_or_null ?b)) =
             Inl (JsError ''TypeError'' ''Cannot convert object to primitive value'')"
    by (simp add: reject_detail_def opt_part_def normalize_review_def json_or_null_def body_field_def
          body_info_def js_or_def js_toString_def)
  have w: "status (readMeta ''i1'' demo_wait_world) = Some Wait"
    by (simp add: readMeta_def demo_paths) (simp add: demo_wait_world_def demo_wait_meta_def)
  show ?thesis
    using w a
    by (simp add: http_ok_def
          submit_rejected_abort(1) [of _ 201 "''{}''" "Inr (Obj [])", OF _ a d]
          submit_rejected_throws(1,2) [of _ 500 "[]" ?b, OF _ b e])
qed

section \<open>Validation of a send request (C6)\<close>



section \<open>The collaborator clients\<close>

lemma client_result_success:
  "(\<exists>v. client_result l r = Inr v) \<longleftrightarrow>
     (\<exists>st tx v. r = Response st tx (Inr v) \<and> 200 \<le> st \<and> st \<le> 299)"
  by (cases r) (auto simp: client_result_def http_ok_def)


lemma callEmailAgent_eq:
  "callEmailAgent ev b w =
     (client_result ''email_agent_error_'' (email_reply ev),
      collaborator_wrote b (email_draft ev) (emit (CallEmail b) w))"
  by (simp add: callEmailAgent_def)

lemma callAuthorAgent_eq:
  "callAuthorAgent ev b w =
     (client_result ''author_agent_error_'' (author_reply ev),
      collaborator_wrote b (author_draft ev) (emit (CallAuthor b) w))"
  by (simp add: callAuthorAgent_def)

text \<open>The members of an object literal, and of the three request bodies.\<close>

lemma map_of_filter_defined:
  "distinct (map fst kvs) \<Longrightarrow>
   map_of (filter (\<lambda>kv. snd kv \<noteq> Undefined) kvs) k =
     (case map_of kvs k of None \<Rightarrow> None | Some v \<Rightarrow> if v = Undefined then None else Some v)"
proof (induction kvs)
  case Nil
  show ?case by simp
next
  case (Cons kv kvs)
  then show ?case
    by (cases kv) (auto simp: map_of_eq_None_iff image_iff split: option.splits)
qed

lemma getp_json_obj:
  "distinct (map fst kvs) \<Longrightarrow>
   getp (json_obj kvs) k = (case map_of kvs k of None \<Rightarrow> Undefined | Some v \<Rightarrow> v)"
  by (simp add: json_obj_def map_of_filter_defined split: option.splits)

lemma delivery_request_fields:
  "getp (delivery_request i user html mg t) ''instance_id'' = Str i"
  "getp (delivery_request i user html mg t) ''username'' = Str user"
  "getp (delivery_request i user html mg t) ''html'' = Str html"
  "getp (delivery_request i user html mg t) ''subject'' = subject mg"
  "getp (delivery_request i user html mg t) ''sender_email'' = sender_email mg"
  "getp (delivery_request i user html mg t) ''sender_name'' = sender_name mg"
  "getp (delivery_request i user html mg t) ''to'' = to mg"
  "getp (delivery_request i user html mg t) ''cc'' = cc mg"
  "getp (delivery_request i user html mg t) ''bcc'' = bcc mg"
  "getp (delivery_request i user html mg t) ''trace_id'' = t"
  by (simp_all add: delivery_request_def getp_json_obj)

lemma draft_request_fields:
  "getp (draft_request i u ins base subj t) ''instance_id'' = Str i"
  "getp (draft_request i u ins base subj t) ''username'' = u"
  "getp (draft_request i u ins base subj t) ''instructions'' = ins"
  "getp (draft_request i u ins base subj t) ''base_html'' = base"
  "getp (draft_request i u ins base subj t) ''subject'' = subj"
  "getp (draft_request i u ins base subj t) ''trace_id'' = t"
  by (simp_all add: draft_request_def getp_json_obj)

lemma review_request_fields:
  "getp (review_request i html cfg k) ''caller_id'' = Str i"
  "getp (review_request i html cfg k) ''html'' = html"
  "getp (review_request i html cfg k) ''hitl'' = js_or cfg (Obj [])"
  "getp (review_request i html cfg k) ''loop'' = Num (int k + 1)"
  by (simp_all add: review_request_def getp_json_obj)

lemma stored_config:
  "subject (mergeConfig i (Obj []) w) =
     js_or (getp (loadInstanceConfig i w) ''subject'') (js_or (getp (loadInstanceConfig i w) ''EMAIL_SUBJECT'') Null)"
  "to (mergeConfig i (Obj []) w) = js_or (getp (loadInstanceConfig i w) ''to'') (Arr [])"
  "cc (mergeConfig i (Obj []) w) = js_or (getp (loadInstanceConfig i w) ''cc'') (Arr [])"
  "bcc (mergeConfig i (Obj []) w) = js_or (getp (loadInstanceConfig i w) ''bcc'') (Arr [])"
  "sender_email (mergeConfig i (Obj []) w) =
     js_or (getp (loadInstanceConfig i w) ''sender_email'') (js_or (getp (loadInstanceConfig i w) ''SENDER_EMAIL'') Null)"
  "sender_name (mergeConfig i (Obj []) w) =
     js_or (getp (loadInstanceConfig i w) ''sender_name'') (js_or (getp (loadInstanceConfig i w) ''SENDER_NAME'') Null)"
  by (simp_all add: mergeConfig_def Let_def js_or_def)

section \<open>The review callback: approve (C2, C5)\<close>

lemma info_text_stringable:
  "stringable info \<Longrightarrow>
   info_text info = Inr (if truthy info then '' info='' @ [CHR 0x27] @ string_of info @ [CHR 0x27] else [])"
  by (simp add: info_text_def js_toString_def)

lemma info_text_throws: "\<not> stringable info \<Longrightarrow> \<exists>e. info_text info = Inl e"
  using falsy_stringable [of info] by (auto simp: info_text_def js_toString_def)

lemma handler_throws:
  assumes "\<not> stringable info"
  shows "isl (fst (handler ev i a info ins user t w))" and "snd (handler ev i a info ins user t w) = w"
  using info_text_throws [OF assms] by (auto simp: handler_def)

lemma handler_opaque_info:
  "handler ev i a (Obj [(''toString'', Num 1)]) ins user t w =
     (Inl (JsError ''TypeError'' ''Cannot convert object to primitive value''), w)"
  by (simp add: handler_def info_text_def js_toString_def)

lemma handler_approve_state:
  assumes "stringable info"
  shows "readMeta i (snd (handler ev i ''approve'' info ins user t w)) =
     (readMeta i w)\<lparr>status := Some (if isl (client_result ''email_agent_error_'' (email_reply ev))
                                        then Abort else Finished),
                      finished_at := Some (clock ev (ticks w))\<rparr>"
    and "steps (snd (handler ev i ''approve'' info ins user t w)) =
     steps w @ [CallEmail (delivery_request i user (readLatestEmailHtml i w) (mergeConfig i (Obj []) w) t),
                MetaWrite (getInstancePaths i w)
                  ((readMeta i w)\<lparr>status := Some (if isl (client_result ''email_agent_error_'' (email_reply ev))
                                        then Abort else Finished),
                      finished_at := Some (clock ev (ticks w))\<rparr>)]"
    and "fst (handler ev i ''approve'' info ins user t w) =
     (case client_result ''email_agent_error_'' (email_reply ev) of
        Inl e \<Rightarrow> Inl (JsError ''Error'' (err_text e)) | Inr v \<Rightarrow> Inr ())"
  by (cases "client_result ''email_agent_error_'' (email_reply ev)";
      simp add: handler_def info_text_stringable [OF assms] handler_approve_def callEmailAgent_eq Let_def
        finishAs_steps)+

lemma handler_approve_note:
  assumes "stringable info" and "client_result ''email_agent_error_'' (email_reply ev) = Inl e"
  shows "LogEvent ''warn'' ''state_change'' (''state - abort (email send failed: '' @ err_text e @ '')'')
     i (Str user) t \<in> set (trace (snd (handler ev i ''approve'' info ins user t w)))"
  using assms(2)
  by (simp add: handler_def info_text_stringable [OF assms(1)] handler_approve_def callEmailAgent_eq Let_def
        finishAs_trace)

text \<open>A callback that reaches the handler: what it leaves is what the handler leaves.\<close>

lemma callback_state:
  assumes "validateInstanceId (getp body ''instance_id'')"
      and "callback_action body = Inr a"
      and "callback_user (getp body ''username'') = Inr user"
  shows "readMeta j (snd (handleHitlCallback ev body w)) =
           readMeta j (snd (handler ev (str_of (getp body ''instance_id'')) a
                    (getp body ''information'') (getp body ''instructions'') user (request_traceId ev body) w))"
    and "steps (snd (handleHitlCallback ev body w)) =
           steps (snd (handler ev (str_of (getp body ''instance_id'')) a
                    (getp body ''information'') (getp body ''instructions'') user (request_traceId ev body) w))"
    and "set (trace (snd (handler ev (str_of (getp body ''instance_id'')) a
                    (getp body ''information'') (getp body ''instructions'') user (request_traceId ev body) w)))
           \<subseteq> set (trace (snd (handleHitlCallback ev body w)))"
  using assms
  by (auto simp: handleHitlCallback_def Let_def valid_id_truthy split: prod.splits sum.splits)

lemma callback_reply_sync:
  assumes "validateInstanceId (getp body ''instance_id'')"
      and "callback_action body = Inr a"
      and "callback_user (getp body ''username'') = Inr user"
      and "getp body ''async'' \<noteq> Bool True"
  shows "fst (handleHitlCallback ev body w) =
           (case fst (handler ev (str_of (getp body ''instance_id'')) a
                    (getp body ''information'') (getp body ''instructions'') user (request_traceId ev body) w) of
              Inr u \<Rightarrow> Inr (Reply 200 (Obj [(''ok'', Bool True)]))
            | Inl e \<Rightarrow> Inr (Reply 400 (Obj [(''error'', Str ''hitl_callback_failed''),
                                             (''detail'', if err_message e \<noteq> [] then Str (err_message e) else Obj [])])))"
  using assms
  by (auto simp: handleHitlCallback_def Let_def valid_id_truthy split: prod.splits sum.splits)

lemma callback_reply_async:
  assumes "validateInstanceId (getp body ''instance_id'')"
      and "callback_action body = Inr a"
      and "callback_user (getp body ''username'') = Inr user"
      and "getp body ''async'' = Bool True"
  shows "fst (handleHitlCallback ev body w) =
           Inr (Reply 202 (json_obj [(''status'', Str ''accepted''),
                                     (''instance_id'', getp body ''instance_id''),
                                     (''trace_id'', request_traceId ev body)]))"
  using assms
  by (auto simp: handleHitlCallback_def Let_def valid_id_truthy split: prod.splits sum.splits)


lemma demo_approve_facts:
  "validateInstanceId (getp demo_approve ''instance_id'')"
  "callback_action demo_approve = Inr ''approve''"
  "callback_user (getp demo_approve ''username'') = Inr ''unknown''"
  "stringable (getp demo_approve ''information'')"
  "str_of (getp demo_approve ''instance_id'') = ''i1''"
  "getp demo_approve ''async'' \<noteq> Bool True"
  "request_traceId demo_env demo_approve = Str ''abcdef''"
  by (simp_all add: demo_approve_def validateInstanceId_def demo_trim callback_user_def str_of_def
        callback_action_def js_or_def toLowerCase_def lower_char_def request_traceId_def demo_env_def)

lemma approve_callback_general:
  assumes "validateInstanceId (getp body ''instance_id'')"
      and "callback_action body = Inr ''approve''"
      and "callback_user (getp body ''username'') = Inr user"
      and "stringable (getp body ''information'')"
  shows "steps (snd (handleHitlCallback ev body w)) =
           steps w @ [CallEmail (delivery_request (str_of (getp body ''instance_id'')) user
                                   (readLatestEmailHtml (str_of (getp body ''instance_id'')) w)
                                   (mergeConfig (str_of (getp body ''instance_id'')) (Obj []) w)
                                   (request_traceId ev body)),
                      MetaWrite (getInstancePaths (str_of (getp body ''instance_id'')) w)
                        ((readMeta (str_of (getp body ''instance_id'')) w)
                           \<lparr>status := Some (if isl (client_result ''email_agent_error_'' (email_reply ev))
                                             then Abort else Finished),
                            finished_at := Some (clock ev (ticks w))\<rparr>)]"
    and "readMeta (str_of (getp body ''instance_id'')) (snd (handleHitlCallback ev body w)) =
           (readMeta (str_of (getp body ''instance_id'')) w)
              \<lparr>status := Some (if isl (client_result ''email_agent_error_'' (email_reply ev))
                                then Abort else Finished),
               finished_at := Some (clock ev (ticks w))\<rparr>"
    and "getp body ''async'' \<noteq> Bool True \<Longrightarrow>
         fst (handleHitlCallback ev body w) =
           (case client_result ''email_agent_error_'' (email_reply ev) of
              Inr v \<Rightarrow> Inr (Reply 200 (Obj [(''ok'', Bool True)]))
            | Inl e \<Rightarrow> Inr (Reply 400 (Obj [(''error'', Str ''hitl_callback_failed''),
                                             (''detail'', if err_text e \<noteq> [] then Str (err_text e) else Obj [])])))"
    and "getp body ''async'' = Bool True \<Longrightarrow>
         fst (handleHitlCallback ev body w) =
           Inr (Reply 202 (json_obj [(''status'', Str ''accepted''),
                                     (''instance_id'', getp body ''instance_id''),
                                     (''trace_id'', request_traceId ev body)]))"
    and "client_result ''email_agent_error_'' (email_reply ev) = Inl e \<Longrightarrow>
         LogEvent ''warn'' ''state_change'' (''state - abort (email send failed: '' @ err_text e @ '')'')
           (str_of (getp body ''instance_id'')) (Str user) (request_traceId ev body)
           \<in> set (trace (snd (handleHitlCallback ev body w)))"
proof -
  let ?i = "str_of (getp body ''instance_id'')"
  let ?h = "handler ev ?i ''approve'' (getp body ''information'') (getp body ''instructions'') user
              (request_traceId ev body) w"
  show "steps (snd (handleHitlCallback ev body w)) =
           steps w @ [CallEmail (delivery_request ?i user (readLatestEmailHtml ?i w)
                                   (mergeConfig ?i (Obj []) w) (request_traceId ev body)),
                      MetaWrite (getInstancePaths ?i w) ((readMeta ?i w)
                           \<lparr>status := Some (if isl (client_result ''email_agent_error_'' (email_reply ev))
                                             then Abort else Finished),
                            finished_at := Some (clock ev (ticks w))\<rparr>)]"
    by (simp add: callback_state(2) [OF assms(1,2,3)] handler_approve_state(2) [OF assms(4)])
  show "readMeta ?i (snd (handleHitlCallback ev body w)) =
           (readMeta ?i w)
              \<lparr>status := Some (if isl (client_result ''email_agent_error_'' (email_reply ev))
                                then Abort else Finished),
               finished_at := Some (clock ev (ticks w))\<rparr>"
    by (simp add: callback_state(1) [OF assms(1,2,3)] handler_approve_state(1) [OF assms(4)])
  show "getp body ''async'' \<noteq> Bool True \<Longrightarrow>
         fst (handleHitlCallback ev body w) =
           (case client_result ''email_agent_error_'' (email_reply ev) of
              Inr v \<Rightarrow> Inr (Reply 200 (Obj [(''ok'', Bool True)]))
            | Inl e \<Rightarrow> Inr (Reply 400 (Obj [(''error'', Str ''hitl_callback_failed''),
                                             (''detail'', if err_text e \<noteq> [] then Str (err_text e) else Obj [])])))"
    by (cases "client_result ''email_agent_error_'' (email_reply ev)")
       (simp_all add: callback_reply_sync [OF assms(1,2,3)] handler_approve_state(3) [OF assms(4)])
  show "getp body ''async'' = Bool True \<Longrightarrow>
         fst (handleHitlCallback ev body w) =
           Inr (Reply 202 (json_obj [(''status'', Str ''accepted''),
                                     (''instance_id'', getp body ''instance_id''),
                                     (''trace_id'', request_traceId ev body)]))"
    by (rule callback_reply_async [OF assms(1,2,3)])
  show "client_result ''email_agent_error_'' (email_reply ev) = Inl e \<Longrightarrow>
         LogEvent ''warn'' ''state_change'' (''state - abort (email send failed: '' @ err_text e @ '')'')
           ?i (Str user) (request_traceId ev body)
           \<in> set (trace (snd (handleHitlCallback ev body w)))"
    using callback_state(3) [OF assms(1,2,3), of ev w] handler_approve_note [OF assms(4), of ev e ?i user]
    by blast
qed

lemma demo_delivery_ok:
  "client_result ''email_agent_error_'' (email_reply demo_env) = Inr (Obj [(''id'', Str ''m1'')])"
  "email_reply demo_env = Response 200 [] (Inr (Obj [(''id'', Str ''m1'')]))"
  by (simp_all add: client_result_def demo_env_def http_ok_def)


lemma demo_wait_reads:
  "readMeta ''i1'' demo_wait_world = demo_wait_meta"
  "readLatestEmailHtml ''i1'' demo_wait_world = ''H1''"
  "loadInstanceConfig ''i1'' demo_wait_world = demo_config"
  "steps demo_wait_world = []" "trace demo_wait_world = []" "ticks demo_wait_world = 0"
  "mergeConfig ''i1'' (Obj []) demo_wait_world =
     \<lparr>subject = Str ''Hi'', to = Arr [Str ''a@x.com''], cc = Arr [], bcc = Arr [],
        sender_email = Null, sender_name = Null\<rparr>"
  by (simp_all add: readMeta_def readLatestEmailHtml_def loadInstanceConfig_def mergeConfig_def
        steps_def demo_paths)
     (simp_all add: demo_wait_world_def demo_config_def js_or_def)


text \<open>
  C5, as the code has it. The approve branch does not look at the instance's status. An
  approve callback whose username is a string or falsy and whose information converts to a
  string, for an instance that is already \<open>finished\<close>: the delivery collaborator is called
  once more with the instance's latest draft, and the record is written again from the
  outcome of that call, \<open>finished\<close> when the delivery succeeded and \<open>abort\<close> when it failed,
  with a new \<open>finished_at\<close>. A synchronous caller is answered 200 after a delivery that
  succeeded and 400 after one that failed; a detached one is answered 202.
\<close>

theorem approve_on_finished_redelivers:
  assumes "validateInstanceId (getp body ''instance_id'')"
      and "callback_action body = Inr ''approve''"
      and "callback_user (getp body ''username'') = Inr user"
      and "stringable (getp body ''information'')"
      and "status (readMeta (str_of (getp body ''instance_id'')) w) = Some Finished"
  shows "(\<exists>b. filter is_email_call (trace (snd (handleHitlCallback ev body w))) =
                filter is_email_call (trace w) @ [CallEmail b] \<and>
              getp b ''instance_id'' = getp body ''instance_id'' \<and>
              getp b ''html'' =
                Str (case drafts w (getInstancePaths (str_of (getp body ''instance_id'')) w) of
                       Some h \<Rightarrow> h | None \<Rightarrow> [])) \<and>
         readMeta (str_of (getp body ''instance_id'')) (snd (handleHitlCallback ev body w)) =
           (readMeta (str_of (getp body ''instance_id'')) w)
              \<lparr>status := Some (if \<exists>st tx v. email_reply ev = Response st tx (Inr v) \<and> 200 \<le> st \<and> st \<le> 299
                                then Finished else Abort),
               finished_at := Some (clock ev (ticks w))\<rparr> \<and>
         (getp body ''async'' = Bool True \<longrightarrow>
            fst (handleHitlCallback ev body w) =
              Inr (Reply 202 (json_obj [(''status'', Str ''accepted''),
                                        (''instance_id'', getp body ''instance_id''),
                                        (''trace_id'', request_traceId ev body)]))) \<and>
         (getp body ''async'' \<noteq> Bool True \<and>
          (\<exists>st tx v. email_reply ev = Response st tx (Inr v) \<and> 200 \<le> st \<and> st \<le> 299) \<longrightarrow>
            fst (handleHitlCallback ev body w) = Inr (Reply 200 (Obj [(''ok'', Bool True)]))) \<and>
         (getp body ''async'' \<noteq> Bool True \<and>
          \<not> (\<exists>st tx v. email_reply ev = Response st tx (Inr v) \<and> 200 \<le> st \<and> st \<le> 299) \<longrightarrow>
            (\<exists>detail. fst (handleHitlCallback ev body w) =
               Inr (Reply 400 (Obj [(''error'', Str ''hitl_callback_failed''), (''detail'', detail)]))))"
proof -
  let ?i = "str_of (getp body ''instance_id'')"
  let ?c = "client_result ''email_agent_error_'' (email_reply ev)"
  note g = approve_callback_general [OF assms(1,2,3,4)]
  have id: "getp body ''instance_id'' = Str ?i"
    by (rule valid_id_Str [OF assms(1)])
  have s: "(\<not> isl ?c) = (\<exists>st tx v. email_reply ev = Response st tx (Inr v) \<and> 200 \<le> st \<and> st \<le> 299)"
    using client_result_success [of "''email_agent_error_''" "email_reply ev"]
    by (cases ?c) auto
  have b: "\<exists>b. filter is_email_call (trace (snd (handleHitlCallback ev body w))) =
                filter is_email_call (trace w) @ [CallEmail b] \<and>
              getp b ''instance_id'' = getp body ''instance_id'' \<and>
              getp b ''html'' = Str (case drafts w (getInstancePaths ?i w) of Some h \<Rightarrow> h | None \<Rightarrow> [])"
    by (rule exI [of _ "delivery_request ?i user (readLatestEmailHtml ?i w) (mergeConfig ?i (Obj []) w)
                          (request_traceId ev body)"])
       (simp add: is_email_call_steps g(1) delivery_request_fields id [symmetric] readLatestEmailHtml_def)
  have m: "readMeta ?i (snd (handleHitlCallback ev body w)) =
           (readMeta ?i w)
              \<lparr>status := Some (if \<exists>st tx v. email_reply ev = Response st tx (Inr v) \<and> 200 \<le> st \<and> st \<le> 299
                                then Finished else Abort),
               finished_at := Some (clock ev (ticks w))\<rparr>"
    unfolding s [symmetric] by (simp add: g(2))
  have r: "getp body ''async'' \<noteq> Bool True \<and>
          (\<exists>st tx v. email_reply ev = Response st tx (Inr v) \<and> 200 \<le> st \<and> st \<le> 299) \<longrightarrow>
            fst (handleHitlCallback ev body w) = Inr (Reply 200 (Obj [(''ok'', Bool True)]))"
    unfolding s [symmetric] using g(3) by (cases ?c) auto
  have f: "getp body ''async'' \<noteq> Bool True \<and>
          \<not> (\<exists>st tx v. email_reply ev = Response st tx (Inr v) \<and> 200 \<le> st \<and> st \<le> 299) \<longrightarrow>
            (\<exists>detail. fst (handleHitlCallback ev body w) =
               Inr (Reply 400 (Obj [(''error'', Str ''hitl_callback_failed''), (''detail'', detail)])))"
    unfolding s [symmetric] using g(3) by (cases ?c) auto
  show ?thesis
    using b m r f g(4) by blast
qed

text \<open>Witness for C5: the delivered instance \<open>i1\<close> is approved again.\<close>

theorem approve_on_finished_redelivers_witness:
  "validateInstanceId (getp demo_approve ''instance_id'') \<and>
   callback_action demo_approve = Inr ''approve'' \<and>
   callback_user (getp demo_approve ''username'') = Inr ''unknown'' \<and>
   stringable (getp demo_approve ''information'') \<and>
   status (readMeta ''i1'' demo_finished_world) = Some Finished \<and>
   getp demo_approve ''async'' \<noteq> Bool True \<and>
   email_reply demo_env = Response 200 [] (Inr (Obj [(''id'', Str ''m1'')])) \<and>
   length (filter is_email_call (trace (snd (handleHitlCallback demo_env demo_approve demo_finished_world)))) = 1 \<and>
   finished_at (readMeta ''i1'' (snd (handleHitlCallback demo_env demo_approve demo_finished_world)))
     = Some ''2026-01-01 10:00:00'' \<and>
   fst (handleHitlCallback demo_env demo_approve demo_finished_world) = Inr (Reply 200 (Obj [(''ok'', Bool True)]))"
proof -
  have f: "status (readMeta (str_of (getp demo_approve ''instance_id'')) demo_finished_world) = Some Finished"
    by (simp add: demo_approve_facts(5) readMeta_def demo_paths)
       (simp add: demo_finished_world_def demo_wait_world_def demo_wait_meta_def)
  have t: "trace demo_finished_world = []" "ticks demo_finished_world = 0"
    by (simp_all add: demo_finished_world_def demo_wait_world_def)
  have c: "clock demo_env 0 = ''2026-01-01 10:00:00''"
    by (simp add: demo_env_def demo_clock_def)
  have ok: "\<exists>st tx v. email_reply demo_env = Response st tx (Inr v) \<and> 200 \<le> st \<and> st \<le> 299"
    by (simp add: demo_delivery_ok)
  have r: "length (filter is_email_call (trace (snd (handleHitlCallback demo_env demo_approve demo_finished_world)))) = 1"
          "finished_at (readMeta ''i1'' (snd (handleHitlCallback demo_env demo_approve demo_finished_world)))
             = Some ''2026-01-01 10:00:00''"
          "fst (handleHitlCallback demo_env demo_approve demo_finished_world) = Inr (Reply 200 (Obj [(''ok'', Bool True)]))"
    using approve_on_finished_redelivers [OF demo_approve_facts(1,2,3,4) f, of demo_env] ok
    by (auto simp: demo_approve_facts(5,6) t c)
  show ?thesis
    using r f
    by (simp add: demo_approve_facts(1,2,3,4,5,6) demo_delivery_ok(2))
qed

text \<open>
  Counterexample to C5 as stated: the first approve delivers and finishes \<open>i1\<close>; the
  second approve is answered 200 and the trace then holds two delivery requests.
\<close>

theorem approve_twice_delivers_twice:
  "status (readMeta ''i1'' (snd (handleHitlCallback demo_env demo_approve demo_wait_world))) = Some Finished \<and>
   length (filter is_email_call (trace (snd (handleHitlCallback demo_env demo_approve demo_wait_world)))) = 1 \<and>
   length (filter is_email_call
             (trace (snd (handleHitlCallback demo_env demo_approve
                            (snd (handleHitlCallback demo_env demo_approve demo_wait_world)))))) = 2 \<and>
   fst (handleHitlCallback demo_env demo_approve
          (snd (handleHitlCallback demo_env demo_approve demo_wait_world)))
     = Inr (Reply 200 (Obj [(''ok'', Bool True)]))"
  using approve_callback_general(1,2,3) [OF demo_approve_facts(1,2,3,4), of demo_env demo_wait_world]
        approve_callback_general(1,2,3) [OF demo_approve_facts(1,2,3,4), of demo_env
           "snd (handleHitlCallback demo_env demo_approve demo_wait_world)"]
  by (simp add: is_email_call_steps demo_approve_facts(5,6,7) demo_delivery_ok(1) demo_wait_reads)

section \<open>The review callback: modify (C3)\<close>

lemma accepted_iff:
  "accepted (normalize_review st b) \<longleftrightarrow>
     (st = 200 \<or> st = 202) \<and> \<not> truthy (getp b ''error'') \<and>
     getp b ''status'' \<noteq> Str ''no-hitl'' \<and> getp b ''status'' \<noteq> Str ''skip''"
  by (simp add: normalize_review_def hitlAccepted_def truthy_body_field body_field_eq_Str)

text \<open>The record and the steps after the modify branch, case by case.\<close>

lemma modify_guidance_throws:
  assumes "stringable info"
      and "\<And>g. js_or ins (js_or info (Str [])) \<noteq> Str g"
  shows "isl (fst (handler ev i ''modify'' info ins user t w))"
    and "readMeta j (snd (handler ev i ''modify'' info ins user t w)) = readMeta j w"
    and "steps (snd (handler ev i ''modify'' info ins user t w)) = steps w"
  using assms(2)
  by (cases "js_or ins (js_or info (Str []))";
      simp add: handler_def info_text_stringable [OF assms(1)] handler_modify_def Let_def)+

lemma modify_author_failed:
  assumes "stringable info"
      and "js_or ins (js_or info (Str [])) = Str g"
      and "client_result ''author_agent_error_'' (author_reply ev) = Inl e"
  shows "fst (handler ev i ''modify'' info ins user t w) = Inl e"
    and "readMeta i (snd (handler ev i ''modify'' info ins user t w)) =
           (readMeta i w)\<lparr>gen_count := Some (count_of (readMeta i w) + 1), status := Some Abort,
                            finished_at := Some (clock ev (ticks w))\<rparr>"
    and "steps (snd (handler ev i ''modify'' info ins user t w)) =
           steps w @
           [MetaWrite (getInstancePaths i w)
              ((readMeta i w)\<lparr>gen_count := Some (count_of (readMeta i w) + 1), status := Some Active\<rparr>),
            CallAuthor (draft_request i (Str user) (Str (key_instruction g)) (Str (readLatestEmailHtml i w))
                          (subject (mergeConfig i (Obj []) w)) t),
            MetaWrite (getInstancePaths i w)
              ((readMeta i w)\<lparr>gen_count := Some (count_of (readMeta i w) + 1), status := Some Abort,
                               finished_at := Some (clock ev (ticks w))\<rparr>)]"
  using assms(2,3)
  by (simp_all add: handler_def info_text_stringable [OF assms(1)] handler_modify_def modify_try_def
        Let_def callAuthorAgent_eq finishAs_steps)

lemma modify_author_null:
  assumes "stringable info"
      and "js_or ins (js_or info (Str [])) = Str g"
      and "client_result ''author_agent_error_'' (author_reply ev) = Inr Null"
  shows "readMeta i (snd (handler ev i ''modify'' info ins user t w)) =
           (readMeta i w)\<lparr>gen_count := Some (count_of (readMeta i w) + 1), status := Some Abort,
                            finished_at := Some (clock ev (ticks w))\<rparr>"
    and "steps (snd (handler ev i ''modify'' info ins user t w)) =
           steps w @
           [MetaWrite (getInstancePaths i w)
              ((readMeta i w)\<lparr>gen_count := Some (count_of (readMeta i w) + 1), status := Some Active\<rparr>),
            CallAuthor (draft_request i (Str user) (Str (key_instruction g)) (Str (readLatestEmailHtml i w))
                          (subject (mergeConfig i (Obj []) w)) t),
            MetaWrite (getInstancePaths i w)
              ((readMeta i w)\<lparr>gen_count := Some (count_of (readMeta i w) + 1), status := Some Abort,
                               finished_at := Some (clock ev (ticks w))\<rparr>)]"
  using assms(2,3)
  by (simp_all add: handler_def info_text_stringable [OF assms(1)] handler_modify_def modify_try_def
        Let_def callAuthorAgent_eq finishAs_steps)

lemma modify_review_accepted:
  assumes "stringable info"
      and "js_or ins (js_or info (Str [])) = Str g"
      and "client_result ''author_agent_error_'' (author_reply ev) = Inr a" and "a \<noteq> Null"
      and "hitl_reply ev = Response st tx js" and "accepted (normalize_review st (json_or_null js))"
  shows "fst (handler ev i ''modify'' info ins user t w) = Inr ()"
    and "readMeta i (snd (handler ev i ''modify'' info ins user t w)) =
           (readMeta i w)\<lparr>gen_count := Some (count_of (readMeta i w) + 1), status := Some Wait\<rparr>"
    and "steps (snd (handler ev i ''modify'' info ins user t w)) =
           steps w @
           [MetaWrite (getInstancePaths i w)
              ((readMeta i w)\<lparr>gen_count := Some (count_of (readMeta i w) + 1), status := Some Active\<rparr>),
            CallAuthor (draft_request i (Str user) (Str (key_instruction g)) (Str (readLatestEmailHtml i w))
                          (subject (mergeConfig i (Obj []) w)) t),
            CallHitl (review_request i (getp a ''html'') (review_config (loadInstanceConfig i w))
                        (count_of (readMeta i w))),
            MetaWrite (getInstancePaths i w)
              ((readMeta i w)\<lparr>gen_count := Some (count_of (readMeta i w) + 1), status := Some Wait\<rparr>)]"
  using assms(2,3,4,6)
  by (simp_all add: handler_def info_text_stringable [OF assms(1)] handler_modify_def modify_try_def
        Let_def callAuthorAgent_eq split_beta submit_accepted [OF assms(5)])

lemma modify_review_rejected:
  assumes "stringable info"
      and "js_or ins (js_or info (Str [])) = Str g"
      and "client_result ''author_agent_error_'' (author_reply ev) = Inr a" and "a \<noteq> Null"
      and "hitl_reply ev = Response st tx js" and "\<not> accepted (normalize_review st (json_or_null js))"
  shows "isl (fst (handler ev i ''modify'' info ins user t w))"
    and "status (readMeta i (snd (handler ev i ''modify'' info ins user t w))) = Some Abort"
    and "gen_count (readMeta i (snd (handler ev i ''modify'' info ins user t w))) =
           Some (count_of (readMeta i w) + 1)"
    and "\<exists>rest. steps (snd (handler ev i ''modify'' info ins user t w)) =
           steps w @
           [MetaWrite (getInstancePaths i w)
              ((readMeta i w)\<lparr>gen_count := Some (count_of (readMeta i w) + 1), status := Some Active\<rparr>),
            CallAuthor (draft_request i (Str user) (Str (key_instruction g)) (Str (readLatestEmailHtml i w))
                          (subject (mergeConfig i (Obj []) w)) t),
            CallHitl (review_request i (getp a ''html'') (review_config (loadInstanceConfig i w))
                        (count_of (readMeta i w)))] @ rest \<and> filter is_hitl_call rest = []"
  using assms(2,3,4,6)
  by (cases "resubmit_detail (normalize_review st (json_or_null js))";
      simp add: handler_def info_text_stringable [OF assms(1)] handler_modify_def modify_try_def
        Let_def callAuthorAgent_eq split_beta submit_rejected_keep [OF assms(5)]
        abortInstance_steps finishAs_steps)+

lemma modify_review_unreachable:
  assumes "stringable info"
      and "js_or ins (js_or info (Str [])) = Str g"
      and "client_result ''author_agent_error_'' (author_reply ev) = Inr a" and "a \<noteq> Null"
      and "hitl_reply ev = NetFail e"
  shows "fst (handler ev i ''modify'' info ins user t w) = Inl e"
    and "readMeta i (snd (handler ev i ''modify'' info ins user t w)) =
           (readMeta i w)\<lparr>gen_count := Some (count_of (readMeta i w) + 1), status := Some Abort,
                            finished_at := Some (clock ev (ticks w))\<rparr>"
    and "steps (snd (handler ev i ''modify'' info ins user t w)) =
           steps w @
           [MetaWrite (getInstancePaths i w)
              ((readMeta i w)\<lparr>gen_count := Some (count_of (readMeta i w) + 1), status := Some Active\<rparr>),
            CallAuthor (draft_request i (Str user) (Str (key_instruction g)) (Str (readLatestEmailHtml i w))
                          (subject (mergeConfig i (Obj []) w)) t),
            CallHitl (review_request i (getp a ''html'') (review_config (loadInstanceConfig i w))
                        (count_of (readMeta i w))),
            MetaWrite (getInstancePaths i w)
              ((readMeta i w)\<lparr>gen_count := Some (count_of (readMeta i w) + 1), status := Some Abort,
                               finished_at := Some (clock ev (ticks w))\<rparr>)]"
  using assms(2,3,4)
  by (simp_all add: handler_def info_text_stringable [OF assms(1)] handler_modify_def modify_try_def
        Let_def callAuthorAgent_eq split_beta submit_netfail [OF assms(5)] finishAs_steps)

lemma demo_modify_facts:
  "validateInstanceId (getp demo_modify ''instance_id'')"
  "callback_action demo_modify = Inr ''modify''"
  "callback_user (getp demo_modify ''username'') = Inr ''unknown''"
  "stringable (getp demo_modify ''information'')"
  "js_or (getp demo_modify ''instructions'') (js_or (getp demo_modify ''information'') (Str [])) = Str demo_guidance"
  "str_of (getp demo_modify ''instance_id'') = ''i1''"
  "getp demo_modify ''async'' \<noteq> Bool True"
  "request_traceId demo_env demo_modify = Str ''abcdef''"
  by (simp_all add: demo_modify_def validateInstanceId_def demo_trim callback_user_def
        callback_action_def js_or_def toLowerCase_def lower_char_def request_traceId_def demo_env_def
        trim_examples)

lemma demo_env_facts:
  "client_result ''author_agent_error_'' (author_reply demo_env) = Inr (Obj [(''html'', Str ''H1'')])"
  "author_reply demo_env = Response 200 [] (Inr (Obj [(''html'', Str ''H1'')]))"
  "hitl_reply demo_env = Response 202 [] (Inr (Obj [(''status'', Str ''queued'')]))"
  "accepted (normalize_review 202 (json_or_null (Inr (Obj [(''status'', Str ''queued'')]))))"
  by (simp_all add: client_result_def demo_env_def http_ok_def normalize_review_def hitlAccepted_def
        json_or_null_def body_field_def)

text \<open>
  C3, as the code has it. A modify callback whose username and guidance (the instructions,
  or else the information) are strings or falsy and whose information converts to a
  string: the engine first writes the record with \<open>gen_count\<close> one higher and status
  \<open>active\<close>, then calls the drafting collaborator with the new instruction, the latest
  drafted HTML as \<open>base_html\<close> and the subject of the stored configuration; guidance that is
  not blank becomes \<open>[Key Instruction]\<close>, a space and the trimmed guidance, and blank
  guidance the empty instruction. The record keeps the incremented \<open>gen_count\<close> to the end.
  When drafting fails (no response, a status outside 200 to 299, a body that is not JSON or
  is \<^verbatim>\<open>null\<close>) the instance ends in \<open>abort\<close> and no request goes to the review collaborator.
  When drafting succeeds, one review request is made with the new draft and the 1-based
  \<open>loop\<close> = the new \<open>gen_count\<close>, which is loop index = the new \<open>gen_count\<close> - 1; the
  instance ends in \<open>wait\<close> when the submission is accepted and in \<open>abort\<close> when it is
  rejected or the review collaborator cannot be reached.
\<close>

theorem modify_callback_regenerates:
  assumes "validateInstanceId (getp body ''instance_id'')"
      and "callback_action body = Inr ''modify''"
      and "callback_user (getp body ''username'') = Inr user"
      and "stringable (getp body ''information'')"
      and "js_or (getp body ''instructions'') (js_or (getp body ''information'') (Str [])) = Str g"
  shows "gen_count (readMeta (str_of (getp body ''instance_id'')) (snd (handleHitlCallback ev body w)))
           = Some (count_of (readMeta (str_of (getp body ''instance_id'')) w) + 1) \<and>
         (\<exists>a rest.
            steps (snd (handleHitlCallback ev body w)) =
              steps w @
              [MetaWrite (getInstancePaths (str_of (getp body ''instance_id'')) w)
                 ((readMeta (str_of (getp body ''instance_id'')) w)
                    \<lparr>gen_count := Some (count_of (readMeta (str_of (getp body ''instance_id'')) w) + 1), status := Some Active\<rparr>),
               CallAuthor a] @ rest \<and>
            getp a ''instance_id'' = getp body ''instance_id'' \<and>
            getp a ''username'' = Str user \<and>
            getp a ''instructions'' = Str (if trim g \<noteq> [] then ''[Key Instruction] '' @ trim g else []) \<and>
            getp a ''base_html'' =
              Str (case drafts w (getInstancePaths (str_of (getp body ''instance_id'')) w) of Some h \<Rightarrow> h | None \<Rightarrow> []) \<and>
            getp a ''subject'' =
              js_or (getp (loadInstanceConfig (str_of (getp body ''instance_id'')) w) ''subject'')
                (js_or (getp (loadInstanceConfig (str_of (getp body ''instance_id'')) w) ''EMAIL_SUBJECT'') Null) \<and>
            getp a ''trace_id'' = request_traceId ev body) \<and>
         (\<not> (\<exists>st tx v. author_reply ev = Response st tx (Inr v) \<and> 200 \<le> st \<and> st \<le> 299 \<and> v \<noteq> Null) \<longrightarrow>
            status (readMeta (str_of (getp body ''instance_id'')) (snd (handleHitlCallback ev body w))) = Some Abort \<and>
            filter is_hitl_call (trace (snd (handleHitlCallback ev body w))) = filter is_hitl_call (trace w)) \<and>
         (\<forall>st tx v. author_reply ev = Response st tx (Inr v) \<and> 200 \<le> st \<and> st \<le> 299 \<and> v \<noteq> Null \<longrightarrow>
              (\<exists>h. filter is_hitl_call (trace (snd (handleHitlCallback ev body w))) = filter is_hitl_call (trace w) @ [CallHitl h] \<and>
                  getp h ''caller_id'' = getp body ''instance_id'' \<and>
                  getp h ''html'' = getp v ''html'' \<and>
                  getp h ''loop'' = Num (int (count_of (readMeta (str_of (getp body ''instance_id'')) w)) + 1)) \<and>
              (\<forall>st' tx' js. hitl_reply ev = Response st' tx' js \<longrightarrow>
                 status (readMeta (str_of (getp body ''instance_id'')) (snd (handleHitlCallback ev body w))) =
                   Some (if (st' = 200 \<or> st' = 202) \<and> \<not> truthy (getp (json_or_null js) ''error'') \<and>
                              getp (json_or_null js) ''status'' \<noteq> Str ''no-hitl'' \<and>
                              getp (json_or_null js) ''status'' \<noteq> Str ''skip''
                         then Wait else Abort)) \<and>
              (\<forall>e. hitl_reply ev = NetFail e \<longrightarrow>
                 status (readMeta (str_of (getp body ''instance_id'')) (snd (handleHitlCallback ev body w))) = Some Abort))"
proof -
  let ?i = "str_of (getp body ''instance_id'')"
  let ?h = "handler ev ?i ''modify'' (getp body ''information'') (getp body ''instructions'') user
              (request_traceId ev body) w"
  let ?c = "client_result ''author_agent_error_'' (author_reply ev)"
  let ?D = "draft_request ?i (Str user) (Str (key_instruction g)) (Str (readLatestEmailHtml ?i w))
              (subject (mergeConfig ?i (Obj []) w)) (request_traceId ev body)"
  have m: "readMeta ?i (snd (handleHitlCallback ev body w)) = readMeta ?i (snd ?h)"
    by (rule callback_state(1) [OF assms(1,2,3)])
  have s: "steps (snd (handleHitlCallback ev body w)) = steps (snd ?h)"
    by (rule callback_state(2) [OF assms(1,2,3)])
  have id: "getp body ''instance_id'' = Str ?i"
    by (rule valid_id_Str [OF assms(1)])
  have k: "key_instruction g = (if trim g \<noteq> [] then ''[Key Instruction] '' @ trim g else [])"
    by (auto simp: key_instruction_def)
  have d: "getp ?D ''instance_id'' = getp body ''instance_id'' \<and>
           getp ?D ''username'' = Str user \<and>
           getp ?D ''instructions'' = Str (if trim g \<noteq> [] then ''[Key Instruction] '' @ trim g else []) \<and>
           getp ?D ''base_html'' = Str (case drafts w (getInstancePaths ?i w) of Some h \<Rightarrow> h | None \<Rightarrow> []) \<and>
           getp ?D ''subject'' =
              js_or (getp (loadInstanceConfig ?i w) ''subject'')
                (js_or (getp (loadInstanceConfig ?i w) ''EMAIL_SUBJECT'') Null) \<and>
           getp ?D ''trace_id'' = request_traceId ev body"
    by (simp add: draft_request_fields stored_config id [symmetric] readLatestEmailHtml_def k)
  have ok: "(\<exists>v. ?c = Inr v \<and> v \<noteq> Null) = (\<exists>st tx v. author_reply ev = Response st tx (Inr v) \<and> 200 \<le> st \<and> st \<le> 299 \<and> v \<noteq> Null)"
    by (cases "author_reply ev") (auto simp: client_result_def http_ok_def)
  show ?thesis
  proof (cases ?c)
    case (Inl e)
    note f = modify_author_failed [OF assms(4,5) Inl]
    have no: "\<not> (\<exists>st tx v. author_reply ev = Response st tx (Inr v) \<and> 200 \<le> st \<and> st \<le> 299 \<and> v \<noteq> Null)"
      unfolding ok [symmetric] by (simp add: Inl)
    have st: "steps (snd (handleHitlCallback ev body w)) =
              steps w @
              [MetaWrite (getInstancePaths ?i w)
                 ((readMeta ?i w)\<lparr>gen_count := Some (count_of (readMeta ?i w) + 1), status := Some Active\<rparr>),
               CallAuthor ?D] @
              [MetaWrite (getInstancePaths ?i w)
                 ((readMeta ?i w)\<lparr>gen_count := Some (count_of (readMeta ?i w) + 1), status := Some Abort,
                                  finished_at := Some (clock ev (ticks w))\<rparr>)]"
      by (simp add: s f(3))
    have "(\<exists>a rest.
            steps (snd (handleHitlCallback ev body w)) =
              steps w @
              [MetaWrite (getInstancePaths (str_of (getp body ''instance_id'')) w)
                 ((readMeta (str_of (getp body ''instance_id'')) w)
                    \<lparr>gen_count := Some (count_of (readMeta (str_of (getp body ''instance_id'')) w) + 1), status := Some Active\<rparr>),
               CallAuthor a] @ rest \<and>
            getp a ''instance_id'' = getp body ''instance_id'' \<and>
            getp a ''username'' = Str user \<and>
            getp a ''instructions'' = Str (if trim g \<noteq> [] then ''[Key Instruction] '' @ trim g else []) \<and>
            getp a ''base_html'' =
              Str (case drafts w (getInstancePaths (str_of (getp body ''instance_id'')) w) of Some h \<Rightarrow> h | None \<Rightarrow> []) \<and>
            getp a ''subject'' =
              js_or (getp (loadInstanceConfig (str_of (getp body ''instance_id'')) w) ''subject'')
                (js_or (getp (loadInstanceConfig (str_of (getp body ''instance_id'')) w) ''EMAIL_SUBJECT'') Null) \<and>
            getp a ''trace_id'' = request_traceId ev body)"
      using st d by blast
    moreover have "gen_count (readMeta (str_of (getp body ''instance_id'')) (snd (handleHitlCallback ev body w)))
           = Some (count_of (readMeta (str_of (getp body ''instance_id'')) w) + 1)"
      by (simp add: m f(2))
    moreover have "status (readMeta ?i (snd (handleHitlCallback ev body w))) = Some Abort"
      by (simp add: m f(2))
    moreover have "filter is_hitl_call (trace (snd (handleHitlCallback ev body w))) = filter is_hitl_call (trace w)"
      by (simp add: is_hitl_call_steps st)
    ultimately show ?thesis
      using no by blast
  next
    case (Inr a)
    show ?thesis
    proof (cases "a = Null")
      case True
      note f = modify_author_null [OF assms(4,5) Inr [unfolded True]]
      have no: "\<not> (\<exists>st tx v. author_reply ev = Response st tx (Inr v) \<and> 200 \<le> st \<and> st \<le> 299 \<and> v \<noteq> Null)"
        unfolding ok [symmetric] by (simp add: Inr True)
      have st: "steps (snd (handleHitlCallback ev body w)) =
              steps w @
              [MetaWrite (getInstancePaths ?i w)
                 ((readMeta ?i w)\<lparr>gen_count := Some (count_of (readMeta ?i w) + 1), status := Some Active\<rparr>),
               CallAuthor ?D] @
              [MetaWrite (getInstancePaths ?i w)
                 ((readMeta ?i w)\<lparr>gen_count := Some (count_of (readMeta ?i w) + 1), status := Some Abort,
                                  finished_at := Some (clock ev (ticks w))\<rparr>)]"
        by (simp add: s f(2))
      have "(\<exists>a rest.
            steps (snd (handleHitlCallback ev body w)) =
              steps w @
              [MetaWrite (getInstancePaths (str_of (getp body ''instance_id'')) w)
                 ((readMeta (str_of (getp body ''instance_id'')) w)
                    \<lparr>gen_count := Some (count_of (readMeta (str_of (getp body ''instance_id'')) w) + 1), status := Some Active\<rparr>),
               CallAuthor a] @ rest \<and>
            getp a ''instance_id'' = getp body ''instance_id'' \<and>
            getp a ''username'' = Str user \<and>
            getp a ''instructions'' = Str (if trim g \<noteq> [] then ''[Key Instruction] '' @ trim g else []) \<and>
            getp a ''base_html'' =
              Str (case drafts w (getInstancePaths (str_of (getp body ''instance_id'')) w) of Some h \<Rightarrow> h | None \<Rightarrow> []) \<and>
            getp a ''subject'' =
              js_or (getp (loadInstanceConfig (str_of (getp body ''instance_id'')) w) ''subject'')
                (js_or (getp (loadInstanceConfig (str_of (getp body ''instance_id'')) w) ''EMAIL_SUBJECT'') Null) \<and>
            getp a ''trace_id'' = request_traceId ev body)"
        using st d by blast
      moreover have "gen_count (readMeta (str_of (getp body ''instance_id'')) (snd (handleHitlCallback ev body w)))
           = Some (count_of (readMeta (str_of (getp body ''instance_id'')) w) + 1)"
        by (simp add: m f(1))
      moreover have "status (readMeta ?i (snd (handleHitlCallback ev body w))) = Some Abort"
        by (simp add: m f(1))
      moreover have "filter is_hitl_call (trace (snd (handleHitlCallback ev body w))) = filter is_hitl_call (trace w)"
        by (simp add: is_hitl_call_steps st)
      ultimately show ?thesis
        using no by blast
    next
      case False
      let ?H = "review_request ?i (getp a ''html'') (review_config (loadInstanceConfig ?i w))
                  (count_of (readMeta ?i w))"
      have yes: "(\<exists>st tx v. author_reply ev = Response st tx (Inr v) \<and> 200 \<le> st \<and> st \<le> 299 \<and> v \<noteq> Null)"
        unfolding ok [symmetric] by (simp add: Inr False)
      have v: "author_reply ev = Response st tx (Inr v) \<and> 200 \<le> st \<and> st \<le> 299 \<and> v \<noteq> Null \<longrightarrow> v = a"
        for st tx v
        using Inr by (auto simp: client_result_def http_ok_def)
      have hf: "getp ?H ''caller_id'' = getp body ''instance_id'' \<and> getp ?H ''html'' = getp a ''html'' \<and>
                getp ?H ''loop'' = Num (int (count_of (readMeta ?i w)) + 1)"
        by (simp add: review_request_fields id [symmetric])
      have core: "gen_count (readMeta (str_of (getp body ''instance_id'')) (snd (handleHitlCallback ev body w)))
           = Some (count_of (readMeta (str_of (getp body ''instance_id'')) w) + 1) \<and>
                  (\<exists>rest. steps (snd (handleHitlCallback ev body w)) =
                     steps w @
                     [MetaWrite (getInstancePaths ?i w)
                        ((readMeta ?i w)\<lparr>gen_count := Some (count_of (readMeta ?i w) + 1), status := Some Active\<rparr>),
                      CallAuthor ?D, CallHitl ?H] @ rest \<and> filter is_hitl_call rest = []) \<and>
                  (\<forall>st' tx' js. hitl_reply ev = Response st' tx' js \<longrightarrow>
                     status (readMeta ?i (snd (handleHitlCallback ev body w))) =
                       Some (if accepted (normalize_review st' (json_or_null js)) then Wait else Abort)) \<and>
                  (\<forall>e. hitl_reply ev = NetFail e \<longrightarrow>
                 status (readMeta (str_of (getp body ''instance_id'')) (snd (handleHitlCallback ev body w))) = Some Abort)"
      proof (cases "hitl_reply ev")
        case (NetFail e)
        note f = modify_review_unreachable [OF assms(4,5) Inr False NetFail]
        show ?thesis
          by (simp add: m s f(2,3) NetFail)
      next
        case (Response st' tx' js)
        show ?thesis
        proof (cases "accepted (normalize_review st' (json_or_null js))")
          case True
          note f = modify_review_accepted [OF assms(4,5) Inr False Response True]
          show ?thesis
            by (simp add: m s f(2,3) Response True)
        next
          case nacc: False
          note f = modify_review_rejected [OF assms(4,5) Inr False Response nacc]
          show ?thesis
            using f(4) [of ?i user "request_traceId ev body" w]
            by (simp add: m s f(2,3) Response nacc)
        qed
      qed
      then obtain rest where
        st: "steps (snd (handleHitlCallback ev body w)) =
               steps w @
               [MetaWrite (getInstancePaths ?i w)
                  ((readMeta ?i w)\<lparr>gen_count := Some (count_of (readMeta ?i w) + 1), status := Some Active\<rparr>),
                CallAuthor ?D, CallHitl ?H] @ rest" and
        nr: "filter is_hitl_call rest = []"
        by blast
      have "(\<exists>a rest.
            steps (snd (handleHitlCallback ev body w)) =
              steps w @
              [MetaWrite (getInstancePaths (str_of (getp body ''instance_id'')) w)
                 ((readMeta (str_of (getp body ''instance_id'')) w)
                    \<lparr>gen_count := Some (count_of (readMeta (str_of (getp body ''instance_id'')) w) + 1), status := Some Active\<rparr>),
               CallAuthor a] @ rest \<and>
            getp a ''instance_id'' = getp body ''instance_id'' \<and>
            getp a ''username'' = Str user \<and>
            getp a ''instructions'' = Str (if trim g \<noteq> [] then ''[Key Instruction] '' @ trim g else []) \<and>
            getp a ''base_html'' =
              Str (case drafts w (getInstancePaths (str_of (getp body ''instance_id'')) w) of Some h \<Rightarrow> h | None \<Rightarrow> []) \<and>
            getp a ''subject'' =
              js_or (getp (loadInstanceConfig (str_of (getp body ''instance_id'')) w) ''subject'')
                (js_or (getp (loadInstanceConfig (str_of (getp body ''instance_id'')) w) ''EMAIL_SUBJECT'') Null) \<and>
            getp a ''trace_id'' = request_traceId ev body)"
        using st d by (intro exI [of _ ?D] exI [of _ "CallHitl ?H # rest"]) simp
      moreover have "filter is_hitl_call (trace (snd (handleHitlCallback ev body w))) = filter is_hitl_call (trace w) @ [CallHitl ?H]"
        by (simp add: is_hitl_call_steps st nr)
      moreover note core hf
      ultimately show ?thesis
        using yes v by (auto simp: accepted_iff)
    qed
  qed
qed

text \<open>
  Witness for C3: the callback for \<open>i1\<close> asks to make it shorter, with a space before
  and a no-break space after the guidance; the instruction sent has the guidance without
  them, and the second draft is accepted for review.
\<close>

theorem modify_callback_regenerates_witness:
  "validateInstanceId (getp demo_modify ''instance_id'') \<and>
   callback_action demo_modify = Inr ''modify'' \<and>
   callback_user (getp demo_modify ''username'') = Inr ''unknown'' \<and>
   stringable (getp demo_modify ''information'') \<and>
   js_or (getp demo_modify ''instructions'') (js_or (getp demo_modify ''information'') (Str []))
     = Str ('' Make it shorter'' @ [CHR 0xC2, CHR 0xA0]) \<and>
   author_reply demo_env = Response 200 [] (Inr (Obj [(''html'', Str ''H1'')])) \<and>
   hitl_reply demo_env = Response 202 [] (Inr (Obj [(''status'', Str ''queued'')])) \<and>
   gen_count (readMeta ''i1'' demo_wait_world) = Some 1 \<and>
   gen_count (readMeta ''i1'' (snd (handleHitlCallback demo_env demo_modify demo_wait_world))) = Some 2 \<and>
   status (readMeta ''i1'' (snd (handleHitlCallback demo_env demo_modify demo_wait_world))) = Some Wait \<and>
   filter is_call (steps (snd (handleHitlCallback demo_env demo_modify demo_wait_world))) =
     [CallAuthor (Obj [(''instance_id'', Str ''i1''), (''username'', Str ''unknown''),
                       (''instructions'', Str ''[Key Instruction] Make it shorter''),
                       (''base_html'', Str ''H1''), (''subject'', Str ''Hi''),
                       (''trace_id'', Str ''abcdef'')]),
      CallHitl (Obj [(''caller_id'', Str ''i1''), (''html'', Str ''H1''), (''hitl'', Obj []),
                     (''loop'', Num 2)])]"
proof -
  have c: "gen_count (readMeta ''i1'' demo_wait_world) = Some 1" "count_of (readMeta ''i1'' demo_wait_world) = 1"
    by (simp_all add: demo_wait_reads demo_wait_meta_def count_of_def)
  have a: "Obj [(''html'', Str ''H1'')] \<noteq> Null"
    by simp
  have g: "gen_count (readMeta ''i1'' (snd (handleHitlCallback demo_env demo_modify demo_wait_world))) = Some 2"
          "status (readMeta ''i1'' (snd (handleHitlCallback demo_env demo_modify demo_wait_world))) = Some Wait"
    using modify_callback_regenerates [OF demo_modify_facts(1,2,3,4,5), of demo_env demo_wait_world]
          demo_env_facts(2,3)
    by (simp_all add: demo_modify_facts(6) c json_or_null_def)
  have s: "filter is_call (steps (snd (handleHitlCallback demo_env demo_modify demo_wait_world))) =
     [CallAuthor (Obj [(''instance_id'', Str ''i1''), (''username'', Str ''unknown''),
                       (''instructions'', Str ''[Key Instruction] Make it shorter''),
                       (''base_html'', Str ''H1''), (''subject'', Str ''Hi''),
                       (''trace_id'', Str ''abcdef'')]),
      CallHitl (Obj [(''caller_id'', Str ''i1''), (''html'', Str ''H1''), (''hitl'', Obj []),
                     (''loop'', Num 2)])]"
    by (simp add: callback_state(2) [OF demo_modify_facts(1,2,3)]
          modify_review_accepted(3) [OF demo_modify_facts(4,5) demo_env_facts(1) a demo_env_facts(3,4)]
          demo_modify_facts(6,8) demo_wait_reads c draft_request_def review_request_def json_obj_def
          key_instruction_def trim_examples review_config_def demo_config_def js_or_def count_of_def
          demo_wait_meta_def)
  have i: "js_or (getp demo_modify ''instructions'') (js_or (getp demo_modify ''information'') (Str []))
             = Str ('' Make it shorter'' @ [CHR 0xC2, CHR 0xA0])"
    unfolding demo_modify_facts(5) by (simp add: demo_guidance_def)
  show ?thesis
    using g s i
    by (simp add: demo_modify_facts(1,2,3,4) demo_env_facts(2,3) c)
qed

text \<open>
  Counterexample to C3 as stated (every modify callback increments \<open>gen_count\<close> and sets
  the status \<open>active\<close>): the callback for \<open>i1\<close> with the instructions \<open>5\<close> is answered 400,
  and the record still has \<open>gen_count\<close> 1 and status \<open>wait\<close>; no collaborator was called.
  With plain guidance and the number 5 as username the callback throws with no reply, and
  with the information \<^verbatim>\<open>{"toString": 1}\<close> it is answered 400; both leave everything as
  it was.
\<close>

theorem modify_numeric_guidance_no_increment:
  "gen_count (readMeta ''i1'' demo_wait_world) = Some 1 \<and>
   fst (handleHitlCallback demo_env demo_modify_numeric demo_wait_world) =
     Inr (Reply 400 (Obj [(''error'', Str ''hitl_callback_failed''),
                          (''detail'', Str ''rawInstr.trim is not a function'')])) \<and>
   gen_count (readMeta ''i1'' (snd (handleHitlCallback demo_env demo_modify_numeric demo_wait_world))) = Some 1 \<and>
   status (readMeta ''i1'' (snd (handleHitlCallback demo_env demo_modify_numeric demo_wait_world))) = Some Wait \<and>
   filter is_call (trace (snd (handleHitlCallback demo_env demo_modify_numeric demo_wait_world))) = [] \<and>
   isl (fst (handleHitlCallback demo_env demo_modify_numeric_user demo_wait_world)) \<and>
   snd (handleHitlCallback demo_env demo_modify_numeric_user demo_wait_world) = demo_wait_world \<and>
   handleHitlCallback demo_env demo_modify_opaque_info demo_wait_world =
     (Inr (Reply 400 (Obj [(''error'', Str ''hitl_callback_failed''),
                           (''detail'', Str ''Cannot convert object to primitive value'')])),
      demo_wait_world)"
proof -
  have o: "handleHitlCallback demo_env demo_modify_opaque_info demo_wait_world =
     (Inr (Reply 400 (Obj [(''error'', Str ''hitl_callback_failed''),
                           (''detail'', Str ''Cannot convert object to primitive value'')])),
      demo_wait_world)"
    by (simp add: handleHitlCallback_def Let_def demo_modify_opaque_info_def js_or_def
          callback_action_def toLowerCase_def lower_char_def validateInstanceId_def demo_trim
          callback_user_def handler_opaque_info)
  have u: "isl (fst (handleHitlCallback demo_env demo_modify_numeric_user demo_wait_world))"
          "snd (handleHitlCallback demo_env demo_modify_numeric_user demo_wait_world) = demo_wait_world"
    by (simp_all add: handleHitlCallback_def Let_def demo_modify_numeric_user_def js_or_def
          callback_action_def toLowerCase_def lower_char_def validateInstanceId_def demo_trim
          callback_user_def)
  have f: "validateInstanceId (getp demo_modify_numeric ''instance_id'')"
          "callback_action demo_modify_numeric = Inr ''modify''"
          "callback_user (getp demo_modify_numeric ''username'') = Inr ''unknown''"
          "stringable (getp demo_modify_numeric ''information'')"
          "js_or (getp demo_modify_numeric ''instructions'') (js_or (getp demo_modify_numeric ''information'') (Str []))
             = Num 5"
          "str_of (getp demo_modify_numeric ''instance_id'') = ''i1''"
          "getp demo_modify_numeric ''async'' \<noteq> Bool True"
    by (simp_all add: demo_modify_numeric_def validateInstanceId_def demo_trim callback_user_def
          callback_action_def js_or_def toLowerCase_def lower_char_def)
  have h: "handler demo_env ''i1'' ''modify'' (getp demo_modify_numeric ''information'')
             (getp demo_modify_numeric ''instructions'') ''unknown''
             (request_traceId demo_env demo_modify_numeric) demo_wait_world =
           (Inl (JsError ''TypeError'' ''rawInstr.trim is not a function''),
            logEvent ''info'' ''record'' ''hitl-callback: modify'' ''i1'' (Str ''unknown'')
              (request_traceId demo_env demo_modify_numeric)
              (appendLocalLog ''i1'' ''hitl-callback: modify'' demo_wait_world))"
    using f(5)
    by (simp add: handler_def info_text_stringable [OF f(4)] handler_modify_def Let_def)
       (simp add: demo_modify_numeric_def)
  have c: "gen_count (readMeta ''i1'' demo_wait_world) = Some 1" "status (readMeta ''i1'' demo_wait_world) = Some Wait"
    by (simp_all add: demo_wait_reads demo_wait_meta_def)
  show ?thesis
    using c o u
    by (simp add: callback_state(1,2) [OF f(1,2,3)] callback_reply_sync [OF f(1,2,3,7)] f(6) h
          is_call_steps demo_wait_reads)
qed

section \<open>The send request (C1)\<close>

lemma markInstanceActive_frame [simp]:
  "instance_root (markInstanceActive ev i u w) = instance_root w"
  "getInstancePaths j (markInstanceActive ev i u w) = getInstancePaths j w"
  "readMeta i (markInstanceActive ev i u w) = activate (clock ev (ticks w)) u (readMeta i w)"
  "steps (markInstanceActive ev i u w) =
     steps w @ [MetaWrite (getInstancePaths i w) (activate (clock ev (ticks w)) u (readMeta i w))]"
  "configs (markInstanceActive ev i u w) = configs w"
  "drafts (markInstanceActive ev i u w) = drafts w"
  "loadInstanceConfig j (markInstanceActive ev i u w) = loadInstanceConfig j w"
  "mergeConfig j p (markInstanceActive ev i u w) = mergeConfig j p w"
  by (simp_all add: markInstanceActive_def Let_def now_def)

lemma activate_status [simp]:
  "status (activate s u m) = Some Active" "gen_count (activate s u m) = gen_count m"
  "finished_at (activate s u m) = finished_at m" "count_of (activate s u m) = count_of m"
  by (simp_all add: activate_def Let_def count_of_def)

text \<open>A request that passed the checks runs the flow, detached or not.\<close>

lemma send_valid_unfold:
  assumes "truthy (getp payload ''username'')"
      and "truthy (getp payload ''instructions'') \<or> truthy (send_base_html payload)"
      and "truthy (subject (mergeConfig (send_instance_id ev payload) payload w))"
      and "requireRecipients (to (mergeConfig (send_instance_id ev payload) payload w))
             (cc (mergeConfig (send_instance_id ev payload) payload w))
             (bcc (mergeConfig (send_instance_id ev payload) payload w)) \<noteq> None"
  shows "handleComposeSend ev payload w =
          (if getp payload ''async'' = Bool True
           then (Reply 202 (json_obj [(''status'', Str ''accepted''),
                                      (''instance_id'', Str (send_instance_id ev payload)),
                                      (''trace_id'', request_traceId ev payload)]),
                 (case send_flow ev payload w of
                    (Inl e, w5) \<Rightarrow> logEvent ''error'' ''record'' (''Compose async error: '' @ err_text e)
                                     (send_instance_id ev payload) (getp payload ''username'')
                                     (request_traceId ev payload) w5
                  | (Inr result, w5) \<Rightarrow> w5))
           else (case send_flow ev payload w of
                   (Inr result, w5) \<Rightarrow> (Reply 200 result, w5)
                 | (Inl e, w5) \<Rightarrow>
                     (Reply 502 (json_obj
                        [(''error'', Str ''compose_failed''),
                         (''detail'', if err_message e \<noteq> [] then Str (err_message e) else Obj []),
                         (''instance_id'', Str (send_instance_id ev payload)),
                         (''trace_id'', request_traceId ev payload)]),
                      logEvent ''error'' ''record'' (''Compose error: '' @ err_text e)
                        (send_instance_id ev payload) (getp payload ''username'')
                        (request_traceId ev payload) w5)))"
  using assms
  by (auto simp: handleComposeSend_def Let_def truthy_field_truthy [of payload "''username''"])

lemma send_invalid_unfold:
  assumes "\<not> truthy (getp (js_or payload (Obj [])) ''username'')
         \<or> (\<not> truthy (getp (js_or payload (Obj [])) ''instructions'') \<and> \<not> truthy (send_base_html (js_or payload (Obj []))))
         \<or> \<not> truthy (subject (mergeConfig (send_instance_id ev (js_or payload (Obj []))) (js_or payload (Obj [])) w))
         \<or> requireRecipients
              (to (mergeConfig (send_instance_id ev (js_or payload (Obj []))) (js_or payload (Obj [])) w))
              (cc (mergeConfig (send_instance_id ev (js_or payload (Obj []))) (js_or payload (Obj [])) w))
              (bcc (mergeConfig (send_instance_id ev (js_or payload (Obj []))) (js_or payload (Obj [])) w)) = None"
  shows "\<exists>code. fst (handleComposeSend ev payload w) = Reply 400 (Obj [(''error'', Str code)])"
  using assms
  by (auto simp: handleComposeSend_def Let_def)


lemma runFlow_frame [simp]:
  "instance_root (snd (runFlow ev i u ins base mg t w)) = instance_root w"
  "configs (snd (runFlow ev i u ins base mg t w)) = configs w"
  by (simp_all add: runFlow_def Let_def callAuthorAgent_eq split_beta split: sum.splits)

lemma runFlow_author_failed:
  assumes "client_result ''author_agent_error_'' (author_reply ev) = Inl e"
  shows "fst (runFlow ev i u ins base mg t w) = Inl e"
    and "readMeta i (snd (runFlow ev i u ins base mg t w)) =
           (readMeta i w)\<lparr>gen_count := Some (count_of (readMeta i w) + 1)\<rparr>"
    and "steps (snd (runFlow ev i u ins base mg t w)) =
           steps w @ [MetaWrite (getInstancePaths i w)
                        ((readMeta i w)\<lparr>gen_count := Some (count_of (readMeta i w) + 1)\<rparr>),
                      CallAuthor (draft_request i u ins base (subject mg) t)]"
  using assms
  by (simp_all add: runFlow_def Let_def callAuthorAgent_eq)

lemma runFlow_review_accepted:
  assumes "client_result ''author_agent_error_'' (author_reply ev) = Inr a" and "a \<noteq> Null"
      and "hitl_reply ev = Response st tx js" and "accepted (normalize_review st (json_or_null js))"
  shows "fst (runFlow ev i u ins base mg t w) =
           Inr (json_obj [(''instance_id'', Str i), (''trace_id'', t),
                          (''draft_html'', getp a ''html''), (''send_result'', Null)])"
    and "readMeta i (snd (runFlow ev i u ins base mg t w)) =
           (readMeta i w)\<lparr>gen_count := Some (count_of (readMeta i w) + 1), status := Some Wait\<rparr>"
    and "steps (snd (runFlow ev i u ins base mg t w)) =
           steps w @ [MetaWrite (getInstancePaths i w)
                        ((readMeta i w)\<lparr>gen_count := Some (count_of (readMeta i w) + 1)\<rparr>),
                      CallAuthor (draft_request i u ins base (subject mg) t),
                      CallHitl (review_request i (getp a ''html'') (review_config (loadInstanceConfig i w))
                                  (count_of (readMeta i w))),
                      MetaWrite (getInstancePaths i w)
                        ((readMeta i w)\<lparr>gen_count := Some (count_of (readMeta i w) + 1), status := Some Wait\<rparr>)]"
  using assms(1,2,4)
  by (simp_all add: runFlow_def Let_def callAuthorAgent_eq split_beta count_of_def
        submit_accepted [OF assms(3)])


lemma runFlow_review_rejected:
  assumes "client_result ''author_agent_error_'' (author_reply ev) = Inr a" and "a \<noteq> Null"
      and "hitl_reply ev = Response st tx js" and "\<not> accepted (normalize_review st (json_or_null js))"
      and "reject_detail (normalize_review st (json_or_null js)) = Inr d"
  shows "readMeta i (snd (runFlow ev i u ins base mg t w)) =
           (readMeta i w)\<lparr>gen_count := Some (count_of (readMeta i w) + 1), status := Some Abort,
                            finished_at := Some (clock ev (ticks w))\<rparr>"
    and "steps (snd (runFlow ev i u ins base mg t w)) =
           steps w @ [MetaWrite (getInstancePaths i w)
                        ((readMeta i w)\<lparr>gen_count := Some (count_of (readMeta i w) + 1)\<rparr>),
                      CallAuthor (draft_request i u ins base (subject mg) t),
                      CallHitl (review_request i (getp a ''html'') (review_config (loadInstanceConfig i w))
                                  (count_of (readMeta i w))),
                      MetaWrite (getInstancePaths i w)
                        ((readMeta i w)\<lparr>gen_count := Some (count_of (readMeta i w) + 1), status := Some Abort,
                            finished_at := Some (clock ev (ticks w))\<rparr>)]"
  using assms(1,2,4)
  by (simp_all add: runFlow_def Let_def callAuthorAgent_eq split_beta count_of_def
        submit_rejected_abort(1,2,3) [OF assms(3,4,5)])

lemma runFlow_review_snd:
  assumes "client_result ''author_agent_error_'' (author_reply ev) = Inr a" and "a \<noteq> Null"
  shows "snd (runFlow ev i u ins base mg t w) =
           snd (submitHitlAndHandle ev i u (getp a ''html'') (review_config (loadInstanceConfig i w))
                  (count_of (readMeta i w)) t True
                  (snd (callAuthorAgent ev (draft_request i u ins base (subject mg) t)
                     (logEvent ''info'' ''record'' ''Calling LLM to generate email'' i u t
                        (updateMeta i (\<lambda>prev. prev\<lparr>gen_count := Some (count_of prev + 1)\<rparr>) w)))))"
  using assms
  by (simp add: runFlow_def Let_def callAuthorAgent_eq split_beta count_of_def
        split: sum.splits)

lemma runFlow_rejection_note:
  assumes "client_result ''author_agent_error_'' (author_reply ev) = Inr a" and "a \<noteq> Null"
      and "hitl_reply ev = Response st tx js" and "\<not> accepted (normalize_review st (json_or_null js))"
      and "reject_detail (normalize_review st (json_or_null js)) = Inr d"
  shows "LocalLog i (''HITL submission failed: '' @ d)
           \<in> set (trace (snd (runFlow ev i u ins base mg t w)))"
  unfolding runFlow_review_snd [OF assms(1,2)]
  by (rule submit_rejected_abort(4) [OF assms(3,4,5)])

lemma send_valid_state:
  assumes "truthy (getp payload ''username'')"
      and "truthy (getp payload ''instructions'') \<or> truthy (send_base_html payload)"
      and "truthy (subject (mergeConfig (send_instance_id ev payload) payload w))"
      and "requireRecipients (to (mergeConfig (send_instance_id ev payload) payload w))
             (cc (mergeConfig (send_instance_id ev payload) payload w))
             (bcc (mergeConfig (send_instance_id ev payload) payload w)) \<noteq> None"
  shows "metas (snd (handleComposeSend ev payload w)) = metas (snd (send_flow ev payload w))"
    and "steps (snd (handleComposeSend ev payload w)) = steps (snd (send_flow ev payload w))"
    and "readMeta j (snd (handleComposeSend ev payload w)) = readMeta j (snd (send_flow ev payload w))"
    and "drafts (snd (handleComposeSend ev payload w)) = drafts (snd (send_flow ev payload w))"
    and "configs (snd (handleComposeSend ev payload w)) = configs w"
    and "instance_root (snd (handleComposeSend ev payload w)) = instance_root w"
    and "ticks (snd (handleComposeSend ev payload w)) = ticks (snd (send_flow ev payload w))"
    and "dirs (snd (handleComposeSend ev payload w)) = dirs (snd (send_flow ev payload w))"
    and "set (trace (snd (send_flow ev payload w))) \<subseteq> set (trace (snd (handleComposeSend ev payload w)))"
    and "getp payload ''async'' \<noteq> Bool True \<Longrightarrow>
         fst (handleComposeSend ev payload w) =
           (case fst (send_flow ev payload w) of
              Inr result \<Rightarrow> Reply 200 result
            | Inl e \<Rightarrow> Reply 502 (json_obj
                            [(''error'', Str ''compose_failed''),
                             (''detail'', if err_message e \<noteq> [] then Str (err_message e) else Obj []),
                             (''instance_id'', Str (send_instance_id ev payload)),
                             (''trace_id'', request_traceId ev payload)]))"
    and "getp payload ''async'' = Bool True \<Longrightarrow>
         fst (handleComposeSend ev payload w) =
           Reply 202 (json_obj [(''status'', Str ''accepted''),
                                (''instance_id'', Str (send_instance_id ev payload)),
                                (''trace_id'', request_traceId ev payload)])"
  by (auto simp: send_valid_unfold [OF assms] split_beta readMeta_def getInstancePaths_def
        split: sum.splits prod.splits)

lemma flow_start_reads [simp]:
  "readMeta (send_instance_id ev payload) (flow_start ev payload w) =
     activate (clock ev (ticks w)) (getp payload ''username'') (readMeta (send_instance_id ev payload) w)"
  "steps (flow_start ev payload w) =
     steps w @ [MetaWrite (getInstancePaths (send_instance_id ev payload) w)
                  (activate (clock ev (ticks w)) (getp payload ''username'')
                     (readMeta (send_instance_id ev payload) w))]"
  "getInstancePaths j (flow_start ev payload w) = getInstancePaths j w"
  "loadInstanceConfig j (flow_start ev payload w) = loadInstanceConfig j w"
  "drafts (flow_start ev payload w) = drafts w"
  by simp_all

lemma send_drafting_failure:
  assumes "truthy (getp payload ''username'')"
      and "truthy (getp payload ''instructions'') \<or> truthy (send_base_html payload)"
      and "truthy (subject (mergeConfig (send_instance_id ev payload) payload w))"
      and "requireRecipients (to (mergeConfig (send_instance_id ev payload) payload w))
             (cc (mergeConfig (send_instance_id ev payload) payload w))
             (bcc (mergeConfig (send_instance_id ev payload) payload w)) \<noteq> None"
      and "client_result ''author_agent_error_'' (author_reply ev) = Inl e"
  shows "readMeta (send_instance_id ev payload) (snd (handleComposeSend ev payload w)) =
           (activate (clock ev (ticks w)) (getp payload ''username'') (readMeta (send_instance_id ev payload) w))
             \<lparr>gen_count := Some (count_of (readMeta (send_instance_id ev payload) w) + 1)\<rparr>"
    and "steps (snd (handleComposeSend ev payload w)) =
           steps w @
           [MetaWrite (getInstancePaths (send_instance_id ev payload) w)
              (activate (clock ev (ticks w)) (getp payload ''username'') (readMeta (send_instance_id ev payload) w)),
            MetaWrite (getInstancePaths (send_instance_id ev payload) w)
              ((activate (clock ev (ticks w)) (getp payload ''username'') (readMeta (send_instance_id ev payload) w))
                 \<lparr>gen_count := Some (count_of (readMeta (send_instance_id ev payload) w) + 1)\<rparr>),
            CallAuthor (draft_request (send_instance_id ev payload) (getp payload ''username'')
                          (getp payload ''instructions'') (send_base_html payload)
                          (subject (mergeConfig (send_instance_id ev payload) payload w))
                          (request_traceId ev payload))]"
    and "getp payload ''async'' \<noteq> Bool True \<Longrightarrow>
         fst (handleComposeSend ev payload w) =
           Reply 502 (json_obj
                            [(''error'', Str ''compose_failed''),
                             (''detail'', if err_message e \<noteq> [] then Str (err_message e) else Obj []),
                             (''instance_id'', Str (send_instance_id ev payload)),
                             (''trace_id'', request_traceId ev payload)])"
  by (simp_all add: send_valid_state(2,3,10) [OF assms(1-4)] runFlow_author_failed [OF assms(5)])

text \<open>
  The send request when drafting succeeds: the record is written \<open>active\<close>, then with
  \<open>gen_count\<close> one higher; then the drafting and the review collaborator are called, the
  latter with loop index = the new \<open>gen_count\<close> - 1; an accepted submission ends in
  \<open>wait\<close>, a rejected one (whose detail converts to a string) in \<open>abort\<close> with the
  rejection detail in the local log.
\<close>

lemma send_request_flow:
  assumes "truthy (getp payload ''username'')"
      and "truthy (getp payload ''instructions'') \<or> truthy (send_base_html payload)"
      and "truthy (subject (mergeConfig (send_instance_id ev payload) payload w))"
      and "requireRecipients (to (mergeConfig (send_instance_id ev payload) payload w))
             (cc (mergeConfig (send_instance_id ev payload) payload w))
             (bcc (mergeConfig (send_instance_id ev payload) payload w)) \<noteq> None"
      and "client_result ''author_agent_error_'' (author_reply ev) = Inr a" and "a \<noteq> Null"
      and "hitl_reply ev = Response st tx js"
      and "reject_detail (normalize_review st (json_or_null js)) = Inr d"
  shows "\<exists>final.
           steps (snd (handleComposeSend ev payload w)) =
             steps w @
             [MetaWrite (getInstancePaths (send_instance_id ev payload) w)
                (activate (clock ev (ticks w)) (getp payload ''username'') (readMeta (send_instance_id ev payload) w)),
              MetaWrite (getInstancePaths (send_instance_id ev payload) w)
                ((activate (clock ev (ticks w)) (getp payload ''username'') (readMeta (send_instance_id ev payload) w))
                   \<lparr>gen_count := Some (count_of (readMeta (send_instance_id ev payload) w) + 1)\<rparr>),
              CallAuthor (draft_request (send_instance_id ev payload) (getp payload ''username'')
                            (getp payload ''instructions'') (send_base_html payload)
                            (subject (mergeConfig (send_instance_id ev payload) payload w))
                            (request_traceId ev payload)),
              CallHitl (review_request (send_instance_id ev payload) (getp a ''html'')
                          (review_config (loadInstanceConfig (send_instance_id ev payload) w))
                          (count_of (readMeta (send_instance_id ev payload) w))),
              MetaWrite (getInstancePaths (send_instance_id ev payload) w) final] \<and>
           readMeta (send_instance_id ev payload) (snd (handleComposeSend ev payload w)) = final \<and>
           gen_count final = Some (count_of (readMeta (send_instance_id ev payload) w) + 1) \<and>
           status final = Some (if accepted (normalize_review st (json_or_null js)) then Wait else Abort) \<and>
           (\<not> accepted (normalize_review st (json_or_null js)) \<longrightarrow>
              LocalLog (send_instance_id ev payload) (''HITL submission failed: '' @ d)
                \<in> set (trace (snd (handleComposeSend ev payload w))))"
proof (cases "accepted (normalize_review st (json_or_null js))")
  case True
  show ?thesis
    by (simp add: True send_valid_state(2,3) [OF assms(1-4)]
          runFlow_review_accepted(2,3) [OF assms(5,6,7) True])
next
  case False
  have n: "LocalLog (send_instance_id ev payload) (''HITL submission failed: '' @ d)
             \<in> set (trace (snd (handleComposeSend ev payload w)))"
    using send_valid_state(9) [OF assms(1-4)] runFlow_rejection_note [OF assms(5,6,7) False assms(8)]
    by blast
  show ?thesis
    using n
    by (simp add: False send_valid_state(2,3) [OF assms(1-4)]
          runFlow_review_rejected(1,2) [OF assms(5,6,7) False assms(8)])
qed

lemma demo_send_facts:
  "truthy (getp demo_send ''username'')"
  "truthy (getp demo_send ''instructions'') \<or> truthy (send_base_html demo_send)"
  "send_instance_id ev demo_send = gen_instance_id ev"
  "getp demo_send ''async'' \<noteq> Bool True"
  "getp demo_send ''username'' = Str ''alice''"
  "getp demo_send ''instructions'' = Str ''Say hello''"
  "send_base_html demo_send = Str []"
  by (simp_all add: demo_send_def send_instance_id_def validateInstanceId_def send_base_html_def)

lemma demo_send_merged:
  "mergeConfig i demo_send demo_new_world =
     \<lparr>subject = Str ''Hi'', to = Arr [Str ''a@x.com''], cc = Arr [], bcc = Arr [],
        sender_email = Null, sender_name = Null\<rparr>"
  by (simp add: mergeConfig_def loadInstanceConfig_def demo_new_world_def demo_send_def js_or_def)

lemma demo_send_valid:
  "truthy (subject (mergeConfig (send_instance_id ev demo_send) demo_send demo_new_world))"
  "requireRecipients
     (to (mergeConfig (send_instance_id ev demo_send) demo_send demo_new_world))
     (cc (mergeConfig (send_instance_id ev demo_send) demo_send demo_new_world))
     (bcc (mergeConfig (send_instance_id ev demo_send) demo_send demo_new_world)) \<noteq> None"
  by (simp_all add: demo_send_merged requireRecipients_def filterBoolean_def)

lemma demo_new_reads:
  "readMeta ''i1'' demo_new_world = empty_meta" "ticks demo_new_world = 0" "steps demo_new_world = []"
  "trace demo_new_world = []" "loadInstanceConfig ''i1'' demo_new_world = Obj []"
  "drafts demo_new_world = (\<lambda>d. None)" "configs demo_new_world = (\<lambda>d. None)"
  "instance_root demo_new_world = [''srv'', ''agents'']"
  by (simp_all add: readMeta_def demo_new_world_def steps_def loadInstanceConfig_def js_or_def)

lemma demo_author_down:
  "client_result ''author_agent_error_'' (author_reply demo_env_author_down) =
     Inl (JsError ''Error'' ''author_agent_error_500: boom'')"
  "gen_instance_id demo_env_author_down = ''i1''"
  "request_traceId demo_env_author_down demo_send = Str ''abcdef''"
  "clock demo_env_author_down 0 = ''2026-01-01 10:00:00''"
  by (simp_all add: client_result_def demo_env_author_down_def demo_env_def http_ok_def
        show_nat.simps digit_char_def request_traceId_def demo_send_def js_or_def demo_clock_def)

text \<open>
  C1 at a drafting failure. The first send request for a new instance, with the drafting
  service answering 500: the synchronous caller gets 502 \<open>compose_failed\<close>, the only
  collaborator request is the one to the drafting service, and the instance's record is
  left with status \<open>active\<close> and no \<open>finished_at\<close>. The \<^verbatim>\<open>catch\<close> of the send request only
  logs; the one of the modify branch (\<open>modify_author_failed\<close>) writes \<open>abort\<close>.
\<close>

theorem send_drafting_failure_stays_active:
  "fst (handleComposeSend demo_env_author_down demo_send demo_new_world) =
     Reply 502 (Obj [(''error'', Str ''compose_failed''),
                     (''detail'', Str ''author_agent_error_500: boom''),
                     (''instance_id'', Str ''i1''), (''trace_id'', Str ''abcdef'')]) \<and>
   readMeta ''i1'' (snd (handleComposeSend demo_env_author_down demo_send demo_new_world)) =
     \<lparr>status = Some Active, gen_count = Some 1, started_at = Some ''2026-01-01 10:00:00'',
        finished_at = None, owner = Some (Str ''alice'')\<rparr> \<and>
   filter is_call (steps (snd (handleComposeSend demo_env_author_down demo_send demo_new_world))) =
     [CallAuthor (draft_request ''i1'' (Str ''alice'') (Str ''Say hello'') (Str []) (Str ''Hi'') (Str ''abcdef''))]"
  using send_drafting_failure [OF demo_send_facts(1,2) demo_send_valid demo_author_down(1)] demo_send_facts(4)
  by (simp add: demo_send_facts demo_author_down demo_send_merged demo_new_reads activate_def empty_meta_def
        has_text_def has_owner_def count_of_def json_obj_def)

section \<open>After the send: the approve callback of the same instance (C2)\<close>



section \<open>Synchronous and detached mode (C8)\<close>

lemma getp_async_irrelevant:
  "k \<noteq> ''async'' \<Longrightarrow> getp (Obj ((''async'', a) # kvs)) k = getp (Obj kvs) k"
  by simp








section \<open>author-agent: fallback to the stub (C10)\<close>










lemma resolvePromptPath_throws:
  assumes "truthy (getp c ''PROMPT_FILE'')" and "\<forall>s. getp c ''PROMPT_FILE'' \<noteq> Str s"
  shows "resolvePromptPath c = Inl (JsError ''TypeError'' ''The path argument must be of type string'')"
proof -
  have "truthy c"
    using assms(1) by (cases c) simp_all
  with assms show ?thesis
    by (auto simp: resolvePromptPath_def js_and_def split: jsval.splits)
qed







end
